theory Spec2Isabelle
  imports Complex_Main "HOL-Library.Sublist"
begin

section \<open>Numbers, vectors and the corner table\<close>

text \<open>
  The path generator of \<^verbatim>\<open>squircle-path.ts\<close> computes with the numbers of the
  language. In this first model they are real numbers with exact arithmetic, without
  the special values (NaN, the infinities, the negative zero); a later section gives
  the generator with the rounding of double arithmetic, for the one property that
  rounding decides. The
  conversion of a number to text, which every template literal of the source performs,
  is a primitive of the language and not code of the repository; each function that
  prints a number takes that conversion as its first argument \<open>ns\<close>, so that whatever
  is proved holds for every such conversion.
\<close>

type_synonym number = real

type_synonym vec = "number \<times> number"

definition squircleBezierApproximation :: "(vec \<times> vec \<times> vec) list" where
  "squircleBezierApproximation =
     [((0.3, 0), (0.473, 0), (0.619, 0.039)),
      ((0.804, 0.088), (0.912, 0.196), (0.961, 0.381)),
      ((1, 0.527), (1, 0.7), (1, 1))]"

definition vecAdd :: "vec \<Rightarrow> vec \<Rightarrow> vec" where
  "vecAdd v1 v2 = (fst v1 + fst v2, snd v1 + snd v2)"

definition vecMul :: "vec \<Rightarrow> number \<Rightarrow> vec" where
  "vecMul v k = (fst v * k, snd v * k)"

text \<open>
  The remainder operator \<^verbatim>\<open>%\<close> of the language truncates towards zero: the result has
  the sign of the dividend. \<open>rotBy90\<close> is only ever called with the literal indices
  0, 1, 2 and 3; the index is modelled as an integer.
\<close>

definition jsRem :: "int \<Rightarrow> int \<Rightarrow> int" where
  "jsRem a b = sgn a * (\<bar>a\<bar> mod \<bar>b\<bar>)"

definition rotBy90 :: "vec \<Rightarrow> int \<Rightarrow> vec" where
  "rotBy90 v k =
     (let x = fst v; y = snd v; m = jsRem k 4 in
      if m = 0 then (x, y)
      else if m = 1 then (y, - x)
      else if m = 2 then (- x, - y)
      else if m = 3 then (- y, x)
      else (x, y))"

section \<open>The path generator\<close>

record SquirclePathOptions =
  width :: number
  height :: number
  radius :: number

text \<open>
  \<open>getSquirclePath\<close> has two overloads: an options object, or three positional
  numbers. The two shapes of a call are the two constructors of \<open>PathArgs\<close>.
\<close>

datatype PathArgs =
    Named SquirclePathOptions
  | Positional number number number

text \<open>
  The body of one \<^verbatim>\<open>for (const [cA, cB, target] of squircleBezierApproximation)\<close>
  loop: it appends one cubic segment per row of the table to the path built so far.
\<close>

definition cornerStep ::
  "(number \<Rightarrow> string) \<Rightarrow> vec \<Rightarrow> int \<Rightarrow> number \<Rightarrow> string \<Rightarrow> vec \<times> vec \<times> vec \<Rightarrow> string" where
  "cornerStep ns start k clampedRadius path row =
     (case row of (cA, cB, target) \<Rightarrow>
        let cA2 = vecAdd start (vecMul (rotBy90 cA k) clampedRadius);
            cB2 = vecAdd start (vecMul (rotBy90 cB k) clampedRadius);
            t2 = vecAdd start (vecMul (rotBy90 target k) clampedRadius)
        in path @ '' C '' @ ns (fst cA2) @ '' '' @ ns (snd cA2) @ '', ''
                @ ns (fst cB2) @ '' '' @ ns (snd cB2) @ '', ''
                @ ns (fst t2) @ '' '' @ ns (snd t2))"

definition cornerLoop ::
  "(number \<Rightarrow> string) \<Rightarrow> vec \<Rightarrow> int \<Rightarrow> number \<Rightarrow> string \<Rightarrow> string" where
  "cornerLoop ns start k clampedRadius path =
     foldl (cornerStep ns start k clampedRadius) path squircleBezierApproximation"

definition getSquirclePath :: "(number \<Rightarrow> string) \<Rightarrow> PathArgs \<Rightarrow> string" where
  "getSquirclePath ns widthOrOptions =
     (case (case widthOrOptions of
              Named opts \<Rightarrow> (width opts, height opts, radius opts)
            | Positional w0 h0 r0 \<Rightarrow> (w0, h0, r0)) of
        (w, h, r) \<Rightarrow>
          if w = 0 \<or> h = 0 then ''''
          else
            let clampedRadius = min r (min (w / 2) (h / 2));
                left = 0;
                top' = 0;
                right = w;
                bottom = h;
                path = ''M '' @ ns (left + clampedRadius) @ '' '' @ ns top';
                startTR = (right - clampedRadius, top');
                path = path @ '' L '' @ ns (fst startTR) @ '' '' @ ns (snd startTR);
                path = cornerLoop ns startTR 0 clampedRadius path;
                startBR = (right, bottom - clampedRadius);
                path = path @ '' L '' @ ns (fst startBR) @ '' '' @ ns (snd startBR);
                path = cornerLoop ns startBR 3 clampedRadius path;
                startBL = (left + clampedRadius, bottom);
                path = path @ '' L '' @ ns (fst startBL) @ '' '' @ ns (snd startBL);
                path = cornerLoop ns startBL 2 clampedRadius path;
                startTL = (left, top' + clampedRadius);
                path = path @ '' L '' @ ns (fst startTL) @ '' '' @ ns (snd startTL);
                path = cornerLoop ns startTL 1 clampedRadius path;
                path = path @ '' Z''
            in path)"

definition getSquircleSVG :: "(number \<Rightarrow> string) \<Rightarrow> number \<Rightarrow> number \<Rightarrow> number \<Rightarrow> string" where
  \<open>getSquircleSVG ns w h r =
     (let path = getSquirclePath ns (Positional w h r) in
      ''<svg xmlns="http://www.w3.org/2000/svg" width="'' @ ns w @ ''" height="'' @ ns h
        @ ''"><path d="'' @ path @ ''" fill="black" /></svg>'')\<close>


section \<open>The embeddable reference\<close>

text \<open>
  \<^verbatim>\<open>encodeURIComponent\<close> is a primitive of the language. A string is modelled as the
  sequence of the bytes of its UTF-8 encoding; the primitive keeps the letters, the
  digits and the marks \<^verbatim>\<open>- _ . ! ~ * ' ( )\<close>, and replaces every other byte by
  a percent sign and two upper-case hexadecimal digits.
\<close>

definition uriUnreserved :: "char \<Rightarrow> bool" where
  "uriUnreserved c \<longleftrightarrow>
     c \<in> set (''ABCDEFGHIJKLMNOPQRSTUVWXYZabcdefghijklmnopqrstuvwxyz0123456789-_.!~*()''
              @ [CHR 0x27])"

definition hexDigits :: string where
  "hexDigits = ''0123456789ABCDEF''"

definition encodeChar :: "char \<Rightarrow> string" where
  "encodeChar c =
     (if uriUnreserved c then [c]
      else let n = (of_char c :: nat) in
        [CHR ''%'', hexDigits ! (n div 16), hexDigits ! (n mod 16)])"

definition encodeURIComponent :: "string \<Rightarrow> string" where
  "encodeURIComponent s = concat (map encodeChar s)"

definition getSquircleDataUri :: "(number \<Rightarrow> string) \<Rightarrow> number \<Rightarrow> number \<Rightarrow> number \<Rightarrow> string" where
  "getSquircleDataUri ns w h r =
     (let svg = getSquircleSVG ns w h r in
      ''data:image/svg+xml,'' @ encodeURIComponent svg)"

text \<open>
  The repository never decodes a reference. To state that the payload of a reference
  decodes to the vector document, the inverse primitive \<^verbatim>\<open>decodeURIComponent\<close> is
  modelled on the same byte strings: a percent sign must be followed by two
  hexadecimal digits of either case, which give one byte; a malformed escape is the
  URIError of the language, here \<open>None\<close>. The check that the decoded bytes are
  well-formed UTF-8 is left out.
\<close>

definition hexValue :: "char \<Rightarrow> nat option" where
  "hexValue c =
     (if c \<in> set ''0123456789'' then Some (of_char c - 48)
      else if c \<in> set ''ABCDEF'' then Some (of_char c - 55)
      else if c \<in> set ''abcdef'' then Some (of_char c - 87)
      else None)"

fun decodeURIComponent :: "string \<Rightarrow> string option" where
  "decodeURIComponent [] = Some []"
| "decodeURIComponent (c # cs) =
     (if c = CHR ''%'' then
        (case cs of
           h1 # h2 # rest \<Rightarrow>
             (case (hexValue h1, hexValue h2) of
                (Some a, Some b) \<Rightarrow>
                  map_option ((#) (char_of (16 * a + b))) (decodeURIComponent rest)
              | _ \<Rightarrow> None)
         | _ \<Rightarrow> None)
      else map_option ((#) c) (decodeURIComponent cs))"

section \<open>The capability queries\<close>

text \<open>
  What the two queries can see of the host: whether \<^verbatim>\<open>window\<close> is defined, the value
  of the global \<^verbatim>\<open>CSS\<close> (not defined, \<^verbatim>\<open>null\<close>, or an object), what reading the
  property \<^verbatim>\<open>supports\<close> of that object gives (it returns nothing, or a function, or
  the read itself throws), and whether \<^verbatim>\<open>ResizeObserver\<close> is defined. A call of a
  host function returns a value or throws.
\<close>

datatype 'a outcome = Returns 'a | Throws

record CSSObject =
  supports :: "(string \<Rightarrow> string \<Rightarrow> bool outcome) option outcome"

datatype CSSGlobal = CSSUndefined | CSSNull | CSSObj CSSObject

record Env =
  hasWindow :: bool
  CSS :: CSSGlobal
  hasResizeObserverCtor :: bool

definition tryCatch :: "'a outcome \<Rightarrow> 'a outcome \<Rightarrow> 'a outcome" where
  "tryCatch body handler = (case body of Returns v \<Rightarrow> Returns v | Throws \<Rightarrow> handler)"

text \<open>
  The second line of \<^verbatim>\<open>supportsClipPath\<close> tests \<^verbatim>\<open>typeof CSS === 'undefined'\<close> and then
  reads \<^verbatim>\<open>CSS.supports\<close>, before the \<^verbatim>\<open>try\<close>. The type of \<^verbatim>\<open>null\<close> is
  \<^verbatim>\<open>'object'\<close>, so where \<^verbatim>\<open>CSS\<close> is \<^verbatim>\<open>null\<close> the test passes and the read of the
  property throws a TypeError that nothing catches; so does a read that throws by
  itself. Only the call of the function is inside the \<^verbatim>\<open>try\<close>.
\<close>

definition supportsClipPath :: "Env \<Rightarrow> bool outcome" where
  \<open>supportsClipPath env =
     (if \<not> hasWindow env then Returns False
      else case CSS env of
        CSSUndefined \<Rightarrow> Returns False
      | CSSNull \<Rightarrow> Throws
      | CSSObj css \<Rightarrow>
          (case supports css of
             Throws \<Rightarrow> Throws
           | Returns None \<Rightarrow> Returns False
           | Returns (Some f) \<Rightarrow>
               tryCatch (f ''clip-path'' ''path("M0 0")'') (Returns False)))\<close>

definition hasResizeObserver :: "Env \<Rightarrow> bool" where
  "hasResizeObserver env \<longleftrightarrow> hasWindow env \<and> hasResizeObserverCtor env"

section \<open>The adaptive binding\<close>

text \<open>
  The options of \<^verbatim>\<open>dom.ts\<close>. The field \<^verbatim>\<open>radius\<close> is named \<open>optRadius\<close> here, the
  name \<open>radius\<close> being the field of \<open>SquirclePathOptions\<close>; the two optional fields
  are \<open>None\<close> when absent.
\<close>

record ApplySquircleOptions =
  optRadius :: number
  borderWidth :: "number option"
  borderColor :: "string option"

record SquircleStyles =
  position :: string
  clipPath :: "string option"
  WebkitClipPath :: "string option"
  borderRadius :: "string option"
  overflow :: "string option"

definition cssPath :: "string \<Rightarrow> string" where
  "cssPath pathData = ''path('' @ [CHR 0x27] @ pathData @ [CHR 0x27] @ '')''"

definition createSquircleStyles ::
  "Env \<Rightarrow> (number \<Rightarrow> string) \<Rightarrow> number \<Rightarrow> number \<Rightarrow> ApplySquircleOptions
     \<Rightarrow> SquircleStyles outcome" where
  "createSquircleStyles env ns w h options =
     (let r = optRadius options in
      case supportsClipPath env of
        Throws \<Rightarrow> Throws
      | Returns isSupported \<Rightarrow>
          if isSupported \<and> w > 0 \<and> h > 0 then
            let pathData = getSquirclePath ns (Positional w h r) in
            Returns \<lparr>position = ''relative'',
                     clipPath = Some (cssPath pathData),
                     WebkitClipPath = Some (cssPath pathData),
                     borderRadius = None,
                     overflow = None\<rparr>
          else
            Returns \<lparr>position = ''relative'',
                     clipPath = None,
                     WebkitClipPath = None,
                     borderRadius = Some (ns r @ ''px''),
                     overflow = Some ''hidden''\<rparr>)"


subsection \<open>The document\<close>

text \<open>
  The part of the document that \<^verbatim>\<open>applySquircle\<close> reads and writes. Nodes,
  observers and listener functions are identified by numbers. The inline style and the
  attributes of a node are maps from the property name the source assigns to, to the
  text assigned. The tree is kept as the parent of each node, which is what
  \<^verbatim>\<open>parentNode\<close> reads. \<open>observing\<close> gives the targets of each resize observer and
  \<open>windowListeners\<close> the listeners registered on the window.
\<close>

type_synonym node = nat

record DOM =
  offsetWidth :: "node \<Rightarrow> number"
  offsetHeight :: "node \<Rightarrow> number"
  style :: "node \<Rightarrow> string \<rightharpoonup> string"
  attributes :: "node \<Rightarrow> string \<rightharpoonup> string"
  innerHTML :: "node \<rightharpoonup> string"
  parentNode :: "node \<rightharpoonup> node"
  nextNode :: node
  observing :: "nat \<Rightarrow> node list"
  nextObserver :: nat
  windowListeners :: "(string \<times> nat) list"
  nextFunction :: nat

datatype error = ReferenceError | NotFoundError | TypeError

definition setStyle :: "node \<Rightarrow> string \<Rightarrow> string \<Rightarrow> DOM \<Rightarrow> DOM" where
  "setStyle n prop v d = d\<lparr>style := (style d)(n := (style d n)(prop \<mapsto> v))\<rparr>"

definition setAttribute :: "node \<Rightarrow> string \<Rightarrow> string \<Rightarrow> DOM \<Rightarrow> DOM" where
  "setAttribute n a v d = d\<lparr>attributes := (attributes d)(n := (attributes d n)(a \<mapsto> v))\<rparr>"

text \<open>A created element is a new node: no parent, no attribute, no inline style.\<close>

definition createElementNS :: "DOM \<Rightarrow> node \<times> DOM" where
  "createElementNS d =
     (let n = nextNode d in
      (n, d\<lparr>style := (style d)(n := Map.empty),
             attributes := (attributes d)(n := Map.empty),
             innerHTML := (innerHTML d)(n := None),
             parentNode := (parentNode d)(n := None),
             nextNode := Suc n\<rparr>))"

definition appendChild :: "node \<Rightarrow> node \<Rightarrow> DOM \<Rightarrow> DOM" where
  "appendChild p c d = d\<lparr>parentNode := (parentNode d)(c \<mapsto> p)\<rparr>"

text \<open>\<^verbatim>\<open>removeChild\<close> throws when the node is not a child of the receiver.\<close>

definition removeChild :: "node \<Rightarrow> node \<Rightarrow> DOM \<Rightarrow> (error + unit) \<times> DOM" where
  "removeChild p c d =
     (if parentNode d c = Some p then (Inr (), d\<lparr>parentNode := (parentNode d)(c := None)\<rparr>)
      else (Inl NotFoundError, d))"

definition newResizeObserver :: "DOM \<Rightarrow> nat \<times> DOM" where
  "newResizeObserver d =
     (let ob = nextObserver d in
      (ob, d\<lparr>observing := (observing d)(ob := []), nextObserver := Suc ob\<rparr>))"

definition observe :: "nat \<Rightarrow> node \<Rightarrow> DOM \<Rightarrow> DOM" where
  "observe ob n d =
     d\<lparr>observing := (observing d)(ob := (if n \<in> set (observing d ob) then observing d ob
                                          else observing d ob @ [n]))\<rparr>"

definition disconnect :: "nat \<Rightarrow> DOM \<Rightarrow> DOM" where
  "disconnect ob d = d\<lparr>observing := (observing d)(ob := [])\<rparr>"

definition addEventListener :: "string \<Rightarrow> nat \<Rightarrow> DOM \<Rightarrow> DOM" where
  "addEventListener ev f d =
     (if (ev, f) \<in> set (windowListeners d) then d
      else d\<lparr>windowListeners := windowListeners d @ [(ev, f)]\<rparr>)"

definition removeEventListener :: "string \<Rightarrow> nat \<Rightarrow> DOM \<Rightarrow> DOM" where
  "removeEventListener ev f d = d\<lparr>windowListeners := removeAll (ev, f) (windowListeners d)\<rparr>"

subsection \<open>applySquircle\<close>

text \<open>
  The variables that the two closures of one \<^verbatim>\<open>applySquircle\<close> call share: the
  element, the destructured options, the capability flag read once, the overlay
  variable (assigned by \<open>updateStyles\<close>, read by the cleanup), the observer, and the
  identity of the function \<open>updateStyles\<close>, under which it is registered on the window.
\<close>

record Closure =
  element :: node
  cRadius :: number
  cBorderWidth :: number
  cBorderColor :: string
  isSupported :: bool
  svgOverlay :: "node option"
  observer :: "nat option"
  updateStylesFn :: nat

definition nl :: "nat \<Rightarrow> string" where
  "nl k = CHR 0x0A # replicate k (CHR '' '')"

definition overlayCssText :: "(number \<Rightarrow> string) \<Rightarrow> number \<Rightarrow> string" where
  "overlayCssText ns bw =
     nl 24 @ ''position: absolute;''
     @ nl 24 @ ''top: '' @ ns (- bw / 2) @ ''px;''
     @ nl 24 @ ''left: '' @ ns (- bw / 2) @ ''px;''
     @ nl 24 @ ''width: calc(100% + '' @ ns bw @ ''px);''
     @ nl 24 @ ''height: calc(100% + '' @ ns bw @ ''px);''
     @ nl 24 @ ''pointer-events: none;''
     @ nl 24 @ ''z-index: 10;''
     @ nl 20"

definition overlayMarkup :: "(number \<Rightarrow> string) \<Rightarrow> string \<Rightarrow> string \<Rightarrow> number \<Rightarrow> string" where
  \<open>overlayMarkup ns pathData color bw =
     nl 20 @ ''<path ''
     @ nl 24 @ ''d="'' @ pathData @ ''" ''
     @ nl 24 @ ''fill="none" ''
     @ nl 24 @ ''stroke="'' @ color @ ''" ''
     @ nl 24 @ ''stroke-width="'' @ ns (bw * 2) @ ''"''
     @ nl 24 @ ''vector-effect="non-scaling-stroke"''
     @ nl 24 @ ''style="transform: translate('' @ ns (bw / 2) @ ''px, '' @ ns (bw / 2) @ ''px)"''
     @ nl 20 @ ''/>''
     @ nl 16\<close>

definition updateStyles :: "(number \<Rightarrow> string) \<Rightarrow> Closure \<Rightarrow> DOM \<Rightarrow> Closure \<times> DOM" where
  "updateStyles ns c d =
     (let el = element c; ow = offsetWidth d el; oh = offsetHeight d el in
      if ow = 0 \<or> oh = 0 then (c, d)
      else if isSupported c then
        let pathData = getSquirclePath ns (Positional ow oh (cRadius c));
            d = setStyle el ''position'' ''relative'' d;
            d = setStyle el ''clipPath'' (cssPath pathData) d;
            d = setStyle el ''WebkitClipPath'' (cssPath pathData) d
        in
          if cBorderWidth c > 0 then
            let (ov, d) =
                  (case svgOverlay c of
                     Some ov \<Rightarrow> (ov, d)
                   | None \<Rightarrow>
                       let (ov, d) = createElementNS d;
                           d = setAttribute ov ''aria-hidden'' ''true'' d;
                           d = setStyle ov ''cssText'' (overlayCssText ns (cBorderWidth c)) d;
                           d = appendChild el ov d
                       in (ov, d));
                d = d\<lparr>innerHTML := (innerHTML d)(ov \<mapsto>
                       overlayMarkup ns pathData (cBorderColor c) (cBorderWidth c))\<rparr>
            in (c\<lparr>svgOverlay := Some ov\<rparr>, d)
          else (c, d)
      else
        let d = setStyle el ''position'' ''relative'' d;
            d = setStyle el ''borderRadius'' (ns (cRadius c) @ ''px'') d;
            d = setStyle el ''overflow'' ''hidden'' d;
            d = (if cBorderWidth c > 0
                 then setStyle el ''border''
                        (ns (cBorderWidth c) @ ''px solid '' @ cBorderColor c) d
                 else d)
        in (c, d))"

text \<open>
  \<open>applySquircle\<close> returns the closure variables, on which \<open>cleanup\<close> (the function it
  returns in the source) then runs. The global \<^verbatim>\<open>window\<close> is read last: where it is
  not defined, the call throws after the first update has been applied. The cleanup
  reads \<^verbatim>\<open>window\<close> as well, after it has disconnected the observer.
\<close>

definition applySquircle ::
  "Env \<Rightarrow> (number \<Rightarrow> string) \<Rightarrow> node \<Rightarrow> ApplySquircleOptions \<Rightarrow> DOM
     \<Rightarrow> (error + Closure) \<times> DOM" where
  "applySquircle env ns el options d =
     (case supportsClipPath env of
        Throws \<Rightarrow> (Inl TypeError, d)
      | Returns supported \<Rightarrow>
          let c = \<lparr>element = el,
                   cRadius = optRadius options,
                   cBorderWidth = (case borderWidth options of None \<Rightarrow> 0 | Some bw \<Rightarrow> bw),
                   cBorderColor =
                     (case borderColor options of None \<Rightarrow> ''currentColor'' | Some col \<Rightarrow> col),
                   isSupported = supported,
                   svgOverlay = None,
                   observer = None,
                   updateStylesFn = nextFunction d\<rparr>;
              d = d\<lparr>nextFunction := Suc (nextFunction d)\<rparr>;
              (c, d) = updateStyles ns c d;
              (c, d) =
                (if hasResizeObserver env then
                   let (ob, d) = newResizeObserver d;
                       d = observe ob el d
                   in (c\<lparr>observer := Some ob\<rparr>, d)
                 else (c, d))
          in if \<not> hasWindow env then (Inl ReferenceError, d)
             else (Inr c, addEventListener ''resize'' (updateStylesFn c) d))"

definition cleanup :: "Env \<Rightarrow> Closure \<Rightarrow> DOM \<Rightarrow> (error + unit) \<times> DOM" where
  "cleanup env c d =
     (let d = (case observer c of None \<Rightarrow> d | Some ob \<Rightarrow> disconnect ob d) in
      if \<not> hasWindow env then (Inl ReferenceError, d)
      else
        let d = removeEventListener ''resize'' (updateStylesFn c) d
        in case svgOverlay c of
             None \<Rightarrow> (Inr (), d)
           | Some ov \<Rightarrow>
               (case parentNode d ov of
                  None \<Rightarrow> (Inr (), d)
                | Some p \<Rightarrow> removeChild p ov d))"

subsection \<open>The custom element\<close>

text \<open>
  The fields of \<^verbatim>\<open>SmoothSquircleElement\<close> that its \<^verbatim>\<open>disconnectedCallback\<close> reads:
  the observer and the identity of the arrow function \<^verbatim>\<open>handleResize\<close>. A custom
  element lives in a document, so \<^verbatim>\<open>window\<close> is defined where the callback runs.
\<close>

record SmoothSquircleElement =
  wcObserver :: "nat option"
  wcSvgOverlay :: "node option"
  handleResize :: nat

definition disconnectedCallback :: "SmoothSquircleElement \<Rightarrow> DOM \<Rightarrow> DOM" where
  "disconnectedCallback e d =
     (let d = (case wcObserver e of None \<Rightarrow> d | Some ob \<Rightarrow> disconnect ob d)
      in removeEventListener ''resize'' (handleResize e) d)"

section \<open>Vocabulary of the properties\<close>

text \<open>
  The notions in which the properties of the generator are stated. \<open>cornerPoints\<close>
  gives the three points \<^verbatim>\<open>cA2\<close>, \<^verbatim>\<open>cB2\<close>, \<^verbatim>\<open>t2\<close> that one corner loop computes
  for each row of the table, \<open>curveTo\<close>, \<open>lineTo\<close> and \<open>moveTo\<close> the text of one
  command; \<open>quarterTurn\<close> is the rotation of index 1. \<open>percentEncoded\<close> holds of
  the strings made of unreserved characters and of escapes of two hexadecimal digits.
\<close>


definition quarterTurn :: "vec \<Rightarrow> vec" where
  "quarterTurn v = (snd v, - fst v)"

definition vecSub :: "vec \<Rightarrow> vec \<Rightarrow> vec" where
  "vecSub v1 v2 = (fst v1 - fst v2, snd v1 - snd v2)"

definition mapSegment :: "(vec \<Rightarrow> vec) \<Rightarrow> vec \<times> vec \<times> vec \<Rightarrow> vec \<times> vec \<times> vec" where
  "mapSegment f seg = (case seg of (a, b, t) \<Rightarrow> (f a, f b, f t))"

definition cornerPoints :: "vec \<Rightarrow> int \<Rightarrow> number \<Rightarrow> (vec \<times> vec \<times> vec) list" where
  "cornerPoints start k clampedRadius =
     map (mapSegment (\<lambda>c. vecAdd start (vecMul (rotBy90 c k) clampedRadius)))
       squircleBezierApproximation"

definition moveTo :: "(number \<Rightarrow> string) \<Rightarrow> vec \<Rightarrow> string" where
  "moveTo ns p = ''M '' @ ns (fst p) @ '' '' @ ns (snd p)"

definition lineTo :: "(number \<Rightarrow> string) \<Rightarrow> vec \<Rightarrow> string" where
  "lineTo ns p = '' L '' @ ns (fst p) @ '' '' @ ns (snd p)"

definition curveTo :: "(number \<Rightarrow> string) \<Rightarrow> vec \<times> vec \<times> vec \<Rightarrow> string" where
  "curveTo ns seg =
     (case seg of (a, b, t) \<Rightarrow>
        '' C '' @ ns (fst a) @ '' '' @ ns (snd a) @ '', ''
          @ ns (fst b) @ '' '' @ ns (snd b) @ '', ''
          @ ns (fst t) @ '' '' @ ns (snd t))"

definition cornerText :: "(number \<Rightarrow> string) \<Rightarrow> vec \<Rightarrow> int \<Rightarrow> number \<Rightarrow> string" where
  "cornerText ns start k clampedRadius =
     concat (map (curveTo ns) (cornerPoints start k clampedRadius))"

definition clampRadius :: "number \<Rightarrow> number \<Rightarrow> number \<Rightarrow> number" where
  "clampRadius w h r = min r (min (w / 2) (h / 2))"

fun percentEncoded :: "string \<Rightarrow> bool" where
  "percentEncoded [] = True"
| "percentEncoded (c # cs) =
     (if c = CHR ''%'' then
        (case cs of
           h1 # h2 # rest \<Rightarrow>
             h1 \<in> set hexDigits \<and> h2 \<in> set hexDigits \<and> percentEncoded rest
         | _ \<Rightarrow> False)
      else uriUnreserved c \<and> percentEncoded cs)"


text \<open>
  The closure variables as \<^verbatim>\<open>applySquircle\<close> sets them before its first update.
\<close>

definition initialClosure :: "bool \<Rightarrow> node \<Rightarrow> ApplySquircleOptions \<Rightarrow> DOM \<Rightarrow> Closure" where
  "initialClosure supported el options d =
     \<lparr>element = el,
      cRadius = optRadius options,
      cBorderWidth = (case borderWidth options of None \<Rightarrow> 0 | Some bw \<Rightarrow> bw),
      cBorderColor = (case borderColor options of None \<Rightarrow> ''currentColor'' | Some col \<Rightarrow> col),
      isSupported = supported,
      svgOverlay = None,
      observer = None,
      updateStylesFn = nextFunction d\<rparr>"

section \<open>The generator in double arithmetic\<close>

text \<open>
  The numbers of the language are IEEE doubles: every sum, difference, product and
  quotient is rounded to the nearest double, a tie going to the even mantissa, and so
  is every decimal literal. \<open>roundDouble\<close> is that rounding on the numbers whose binary
  exponent is within the range of the doubles (\<open>binaryExponent\<close> finds the exponent,
  the mantissa has 53 bits); overflow, subnormal numbers and the special values are
  left out. Negation and \<^verbatim>\<open>Math.min\<close> do not round.
\<close>

definition pow2 :: "int \<Rightarrow> real" where
  "pow2 e = (if 0 \<le> e then 2 ^ nat e else 1 / 2 ^ nat (- e))"

fun binaryExponent :: "nat \<Rightarrow> real \<Rightarrow> int" where
  "binaryExponent 0 x = 0"
| "binaryExponent (Suc n) x =
     (if 2 \<le> x then binaryExponent n (x / 2) + 1
      else if x < 1 then binaryExponent n (x * 2) - 1
      else 0)"

definition roundHalfEven :: "real \<Rightarrow> int" where
  "roundHalfEven x =
     (let f = \<lfloor>x\<rfloor>; d = x - of_int f in
      if d < 1 / 2 then f
      else if 1 / 2 < d then f + 1
      else if even f then f else f + 1)"

definition roundDouble :: "real \<Rightarrow> real" where
  "roundDouble x =
     (if x = 0 then 0
      else
        let a = \<bar>x\<bar>;
            e = binaryExponent 1100 a - 52;
            m = of_int (roundHalfEven (a / pow2 e)) * pow2 e
        in if x < 0 then - m else m)"


text \<open>
  The generator once more, with the rounding made explicit: \<open>rd\<close> is applied to the
  result of every arithmetic operation and to the literals of the table, in the places
  where the source computes them. With \<open>roundDouble\<close> for \<open>rd\<close> this is what the
  language computes; with the identity it is the generator of the exact model above
  (lemma \<open>exact_instance\<close>). \<open>cornerPointsR\<close>, \<open>cornerTextR\<close> and \<open>clampRadiusR\<close>
  are the points of one corner loop, their text and the clamped radius, as before.
\<close>

definition vecAddR :: "(number \<Rightarrow> number) \<Rightarrow> vec \<Rightarrow> vec \<Rightarrow> vec" where
  "vecAddR rd v1 v2 = (rd (fst v1 + fst v2), rd (snd v1 + snd v2))"

definition vecMulR :: "(number \<Rightarrow> number) \<Rightarrow> vec \<Rightarrow> number \<Rightarrow> vec" where
  "vecMulR rd v k = (rd (fst v * k), rd (snd v * k))"

definition tableR :: "(number \<Rightarrow> number) \<Rightarrow> (vec \<times> vec \<times> vec) list" where
  "tableR rd = map (mapSegment (\<lambda>c. (rd (fst c), rd (snd c)))) squircleBezierApproximation"

definition cornerStepR ::
  "(number \<Rightarrow> number) \<Rightarrow> (number \<Rightarrow> string) \<Rightarrow> vec \<Rightarrow> int \<Rightarrow> number \<Rightarrow> string
     \<Rightarrow> vec \<times> vec \<times> vec \<Rightarrow> string" where
  "cornerStepR rd ns start k clampedRadius path row =
     (case row of (cA, cB, target) \<Rightarrow>
        let cA2 = vecAddR rd start (vecMulR rd (rotBy90 cA k) clampedRadius);
            cB2 = vecAddR rd start (vecMulR rd (rotBy90 cB k) clampedRadius);
            t2 = vecAddR rd start (vecMulR rd (rotBy90 target k) clampedRadius)
        in path @ '' C '' @ ns (fst cA2) @ '' '' @ ns (snd cA2) @ '', ''
                @ ns (fst cB2) @ '' '' @ ns (snd cB2) @ '', ''
                @ ns (fst t2) @ '' '' @ ns (snd t2))"

definition cornerLoopR ::
  "(number \<Rightarrow> number) \<Rightarrow> (number \<Rightarrow> string) \<Rightarrow> vec \<Rightarrow> int \<Rightarrow> number \<Rightarrow> string
     \<Rightarrow> string" where
  "cornerLoopR rd ns start k clampedRadius path =
     foldl (cornerStepR rd ns start k clampedRadius) path (tableR rd)"

definition getSquirclePathR ::
  "(number \<Rightarrow> number) \<Rightarrow> (number \<Rightarrow> string) \<Rightarrow> PathArgs \<Rightarrow> string" where
  "getSquirclePathR rd ns widthOrOptions =
     (case (case widthOrOptions of
              Named opts \<Rightarrow> (width opts, height opts, radius opts)
            | Positional w0 h0 r0 \<Rightarrow> (w0, h0, r0)) of
        (w, h, r) \<Rightarrow>
          if w = 0 \<or> h = 0 then ''''
          else
            let clampedRadius = min r (min (rd (w / 2)) (rd (h / 2)));
                left = 0;
                top' = 0;
                right = w;
                bottom = h;
                path = ''M '' @ ns (rd (left + clampedRadius)) @ '' '' @ ns top';
                startTR = (rd (right - clampedRadius), top');
                path = path @ '' L '' @ ns (fst startTR) @ '' '' @ ns (snd startTR);
                path = cornerLoopR rd ns startTR 0 clampedRadius path;
                startBR = (right, rd (bottom - clampedRadius));
                path = path @ '' L '' @ ns (fst startBR) @ '' '' @ ns (snd startBR);
                path = cornerLoopR rd ns startBR 3 clampedRadius path;
                startBL = (rd (left + clampedRadius), bottom);
                path = path @ '' L '' @ ns (fst startBL) @ '' '' @ ns (snd startBL);
                path = cornerLoopR rd ns startBL 2 clampedRadius path;
                startTL = (left, rd (top' + clampedRadius));
                path = path @ '' L '' @ ns (fst startTL) @ '' '' @ ns (snd startTL);
                path = cornerLoopR rd ns startTL 1 clampedRadius path;
                path = path @ '' Z''
            in path)"

definition cornerPointsR ::
  "(number \<Rightarrow> number) \<Rightarrow> vec \<Rightarrow> int \<Rightarrow> number \<Rightarrow> (vec \<times> vec \<times> vec) list" where
  "cornerPointsR rd start k clampedRadius =
     map (mapSegment (\<lambda>c. vecAddR rd start (vecMulR rd (rotBy90 c k) clampedRadius)))
       (tableR rd)"

definition cornerTextR ::
  "(number \<Rightarrow> number) \<Rightarrow> (number \<Rightarrow> string) \<Rightarrow> vec \<Rightarrow> int \<Rightarrow> number \<Rightarrow> string" where
  "cornerTextR rd ns start k clampedRadius =
     concat (map (curveTo ns) (cornerPointsR rd start k clampedRadius))"

definition clampRadiusR :: "(number \<Rightarrow> number) \<Rightarrow> number \<Rightarrow> number \<Rightarrow> number \<Rightarrow> number" where
  "clampRadiusR rd w h r = min r (min (rd (w / 2)) (rd (h / 2)))"

section \<open>Concrete inputs\<close>

text \<open>
  To run the model on examples, a number is printed as its decimal expansion: an
  optional minus sign, the digits of the integer part and, when the number is not an
  integer, a point and at most twenty digits of the fraction. On the integers and the
  short decimals of the examples this is the text the language prints.
\<close>

fun natString :: "nat \<Rightarrow> string" where
  "natString n =
     (if n < 10 then [''0123456789'' ! n]
      else natString (n div 10) @ [''0123456789'' ! (n mod 10)])"

fun fracString :: "nat \<Rightarrow> real \<Rightarrow> string" where
  "fracString 0 x = []"
| "fracString (Suc k) x =
     (if x = 0 then []
      else let y = x * 10; dgt = nat \<lfloor>y\<rfloor>
           in (''0123456789'' ! dgt) # fracString k (y - of_nat dgt))"

definition decimalString :: "number \<Rightarrow> string" where
  "decimalString x =
     (let a = \<bar>x\<bar>; i = nat \<lfloor>a\<rfloor> in
      (if x < 0 then ''-'' else []) @ natString i
        @ (if a = of_nat i then [] else ''.'' @ fracString 20 (a - of_nat i)))"

text \<open>
  Seven hosts: a browser whose \<^verbatim>\<open>CSS.supports\<close> accepts the clip-path query (as the
  mock of the test setup does), a headless host, a host whose \<^verbatim>\<open>CSS.supports\<close>
  throws, a browser that reports no support, a host with a window and no \<^verbatim>\<open>CSS\<close>,
  a host whose \<^verbatim>\<open>CSS\<close> object has no \<^verbatim>\<open>supports\<close> function, and a host with a
  window whose \<^verbatim>\<open>CSS\<close> is \<^verbatim>\<open>null\<close>.
\<close>

definition browserEnv :: Env where
  "browserEnv =
     \<lparr>hasWindow = True,
      CSS = CSSObj \<lparr>supports = Returns (Some (\<lambda>property v. Returns (property = ''clip-path'')))\<rparr>,
      hasResizeObserverCtor = True\<rparr>"

definition headlessEnv :: Env where
  "headlessEnv = \<lparr>hasWindow = False, CSS = CSSUndefined, hasResizeObserverCtor = False\<rparr>"

definition hostileEnv :: Env where
  "hostileEnv =
     \<lparr>hasWindow = True,
      CSS = CSSObj \<lparr>supports = Returns (Some (\<lambda>property v. Throws))\<rparr>,
      hasResizeObserverCtor = False\<rparr>"

definition legacyEnv :: Env where
  "legacyEnv =
     \<lparr>hasWindow = True,
      CSS = CSSObj \<lparr>supports = Returns (Some (\<lambda>property v. Returns False))\<rparr>,
      hasResizeObserverCtor = False\<rparr>"

definition noCssEnv :: Env where
  "noCssEnv = \<lparr>hasWindow = True, CSS = CSSUndefined, hasResizeObserverCtor = True\<rparr>"

definition noSupportsEnv :: Env where
  "noSupportsEnv =
     \<lparr>hasWindow = True, CSS = CSSObj \<lparr>supports = Returns None\<rparr>, hasResizeObserverCtor = True\<rparr>"

definition nullCssEnv :: Env where
  "nullCssEnv = \<lparr>hasWindow = True, CSS = CSSNull, hasResizeObserverCtor = False\<rparr>"

text \<open>A document with one element, node 0, of the given size and no inline style.\<close>

definition pageOf :: "number \<Rightarrow> number \<Rightarrow> DOM" where
  "pageOf w h =
     \<lparr>offsetWidth = (\<lambda>n. if n = 0 then w else 0),
      offsetHeight = (\<lambda>n. if n = 0 then h else 0),
      style = (\<lambda>n. Map.empty),
      attributes = (\<lambda>n. Map.empty),
      innerHTML = Map.empty,
      parentNode = Map.empty,
      nextNode = 1,
      observing = (\<lambda>ob. []),
      nextObserver = 0,
      windowListeners = [],
      nextFunction = 0\<rparr>"


text \<open>
  Options with a border; the closure variables and the document after \<^verbatim>\<open>applySquircle\<close>
  on the browser host, for an element of \<open>100 \<times> 100\<close> and for one of width zero.
\<close>

definition borderedOptions :: ApplySquircleOptions where
  "borderedOptions = \<lparr>optRadius = 20, borderWidth = Some 2, borderColor = None\<rparr>"

definition boundClosure :: Closure where
  "boundClosure =
     \<lparr>element = 0, cRadius = 20, cBorderWidth = 2, cBorderColor = ''currentColor'',
      isSupported = True, svgOverlay = Some 1, observer = Some 0, updateStylesFn = 0\<rparr>"

definition boundPage :: DOM where
  "boundPage = snd (applySquircle browserEnv decimalString 0 borderedOptions (pageOf 100 100))"

definition zeroClosure :: Closure where
  "zeroClosure =
     \<lparr>element = 0, cRadius = 20, cBorderWidth = 2, cBorderColor = ''currentColor'',
      isSupported = True, svgOverlay = None, observer = Some 0, updateStylesFn = 0\<rparr>"

definition zeroPage :: DOM where
  "zeroPage = snd (applySquircle browserEnv decimalString 0 borderedOptions (pageOf 0 100))"

section \<open>Properties of the path generator\<close>

lemma cornerStep_curveTo:
  "cornerStep ns start k cr path row =
     path @ curveTo ns (mapSegment (\<lambda>c. vecAdd start (vecMul (rotBy90 c k) cr)) row)"
  by (cases row) (simp add: cornerStep_def curveTo_def mapSegment_def Let_def)

lemma foldl_cornerStep:
  "foldl (cornerStep ns start k cr) path rows =
     path @ concat (map (curveTo ns)
       (map (mapSegment (\<lambda>c. vecAdd start (vecMul (rotBy90 c k) cr))) rows))"
  by (induction rows arbitrary: path) (simp_all add: cornerStep_curveTo)

lemma cornerLoop_cornerText:
  "cornerLoop ns start k cr path = path @ cornerText ns start k cr"
  by (simp add: cornerLoop_def cornerText_def cornerPoints_def foldl_cornerStep)

lemma path_shape:
  assumes "w \<noteq> 0" and "h \<noteq> 0"
  shows "getSquirclePath ns (Positional w h r) =
     moveTo ns (clampRadius w h r, 0)
     @ lineTo ns (w - clampRadius w h r, 0) @ cornerText ns (w - clampRadius w h r, 0) 0 (clampRadius w h r)
     @ lineTo ns (w, h - clampRadius w h r) @ cornerText ns (w, h - clampRadius w h r) 3 (clampRadius w h r)
     @ lineTo ns (clampRadius w h r, h) @ cornerText ns (clampRadius w h r, h) 2 (clampRadius w h r)
     @ lineTo ns (0, clampRadius w h r) @ cornerText ns (0, clampRadius w h r) 1 (clampRadius w h r)
     @ '' Z''"
  using assms
  by (simp add: getSquirclePath_def Let_def cornerLoop_cornerText moveTo_def lineTo_def clampRadius_def)

lemma rotBy90_index:
  "rotBy90 v 0 = v" "rotBy90 v 1 = quarterTurn v"
  "rotBy90 v 2 = quarterTurn (quarterTurn v)"
  "rotBy90 v 3 = quarterTurn (quarterTurn (quarterTurn v))"
  by (simp_all add: rotBy90_def jsRem_def quarterTurn_def Let_def)


lemma quarterTurn_funpow:
  "(quarterTurn ^^ 0) v = v" "(quarterTurn ^^ Suc 0) v = quarterTurn v"
  "(quarterTurn ^^ 2) v = quarterTurn (quarterTurn v)"
  "(quarterTurn ^^ 3) v = quarterTurn (quarterTurn (quarterTurn v))"
  by (simp_all add: eval_nat_numeral)

lemma rotBy90_funpow:
  assumes "k \<in> {0, 1, 2, 3}"
  shows "rotBy90 v k = (quarterTurn ^^ nat k) v"
  using assms by (auto simp: rotBy90_index eval_nat_numeral)

lemma roundDouble_minus: "roundDouble (- x) = - roundDouble x"
  by (simp add: roundDouble_def Let_def)

lemma cornerStepR_curveTo:
  "cornerStepR rd ns start k cr path row =
     path @ curveTo ns (mapSegment (\<lambda>c. vecAddR rd start (vecMulR rd (rotBy90 c k) cr)) row)"
  by (cases row) (simp add: cornerStepR_def curveTo_def mapSegment_def Let_def)

lemma foldl_cornerStepR:
  "foldl (cornerStepR rd ns start k cr) path rows =
     path @ concat (map (curveTo ns)
       (map (mapSegment (\<lambda>c. vecAddR rd start (vecMulR rd (rotBy90 c k) cr))) rows))"
  by (induction rows arbitrary: path) (simp_all add: cornerStepR_curveTo)

lemma cornerLoopR_cornerTextR:
  "cornerLoopR rd ns start k cr path = path @ cornerTextR rd ns start k cr"
  by (simp add: cornerLoopR_def cornerTextR_def cornerPointsR_def foldl_cornerStepR)

lemma path_shapeR:
  assumes "w \<noteq> 0" and "h \<noteq> 0"
  shows "getSquirclePathR rd ns (Positional w h r) =
     moveTo ns (rd (0 + clampRadiusR rd w h r), 0)
     @ lineTo ns (rd (w - clampRadiusR rd w h r), 0)
     @ cornerTextR rd ns (rd (w - clampRadiusR rd w h r), 0) 0 (clampRadiusR rd w h r)
     @ lineTo ns (w, rd (h - clampRadiusR rd w h r))
     @ cornerTextR rd ns (w, rd (h - clampRadiusR rd w h r)) 3 (clampRadiusR rd w h r)
     @ lineTo ns (rd (0 + clampRadiusR rd w h r), h)
     @ cornerTextR rd ns (rd (0 + clampRadiusR rd w h r), h) 2 (clampRadiusR rd w h r)
     @ lineTo ns (0, rd (0 + clampRadiusR rd w h r))
     @ cornerTextR rd ns (0, rd (0 + clampRadiusR rd w h r)) 1 (clampRadiusR rd w h r)
     @ '' Z''"
  using assms
  by (simp add: getSquirclePathR_def Let_def cornerLoopR_cornerTextR moveTo_def lineTo_def
      clampRadiusR_def)

lemma tableR_exact: "tableR (\<lambda>x. x) = squircleBezierApproximation"
  by (simp add: tableR_def squircleBezierApproximation_def mapSegment_def)

lemma exact_instance: "getSquirclePathR (\<lambda>x. x) ns args = getSquirclePath ns args"
proof -
  have step: "cornerStepR (\<lambda>x. x) ns start k cr = cornerStep ns start k cr" for start k cr
    by (intro ext) (simp add: cornerStepR_def cornerStep_def vecAddR_def vecMulR_def
        vecAdd_def vecMul_def)
  have loop: "cornerLoopR (\<lambda>x. x) ns = cornerLoop ns"
    by (intro ext) (simp add: cornerLoopR_def cornerLoop_def step tableR_exact)
  show ?thesis
    unfolding getSquirclePathR_def getSquirclePath_def loop by (rule refl)
qed

lemma quarterTurn_vecMulR:
  assumes "\<And>x. rd (- x) = - rd x"
  shows "quarterTurn (vecMulR rd v c) = vecMulR rd (quarterTurn v) c"
  by (simp add: quarterTurn_def vecMulR_def assms)

lemma funpow_quarterTurn_vecMulR:
  assumes "\<And>x. rd (- x) = - rd x"
  shows "(quarterTurn ^^ n) (vecMulR rd v c) = vecMulR rd ((quarterTurn ^^ n) v) c"
proof (induction n)
  case 0
  show ?case by simp
next
  case (Suc n)
  have "quarterTurn (vecMulR rd ((quarterTurn ^^ n) v) c) =
        vecMulR rd (quarterTurn ((quarterTurn ^^ n) v)) c"
    using assms by (rule quarterTurn_vecMulR)
  with Suc show ?case by simp
qed

lemma cornerPointsR_funpow:
  assumes "k \<in> {0, 1, 2, 3}"
  shows "cornerPointsR rd start k cr =
           map (mapSegment (\<lambda>c. vecAddR rd start (vecMulR rd ((quarterTurn ^^ nat k) c) cr)))
             (tableR rd)"
  using assms by (simp add: cornerPointsR_def rotBy90_funpow)

lemma vecSub_vecAddR: "vecSub (vecAddR (\<lambda>x. x) s v) s = v"
  by (simp add: vecSub_def vecAddR_def)

lemma cornerPointsR_relative:
  assumes "k \<in> {0, 1, 2, 3}"
  shows "map (mapSegment (\<lambda>p. vecSub p start)) (cornerPointsR (\<lambda>x. x) start k cr) =
         map (mapSegment (\<lambda>p. (quarterTurn ^^ nat k) (vecSub p anchor)))
           (cornerPointsR (\<lambda>x. x) anchor 0 cr)"
  using assms
  by (simp add: cornerPointsR_def mapSegment_def split_def vecSub_vecAddR rotBy90_funpow
      funpow_quarterTurn_vecMulR)

lemma roundDouble_zero: "roundDouble 0 = 0"
  by (simp add: roundDouble_def)

lemma cornerPointsR_first:
  "cornerPointsR rd start k cr ! 0 =
     mapSegment (\<lambda>c. vecAddR rd start (vecMulR rd (rotBy90 c k) cr))
       ((rd (3 / 10), rd 0), (rd (473 / 1000), rd 0), (rd (619 / 1000), rd (39 / 1000)))"
  by (simp add: cornerPointsR_def tableR_def squircleBezierApproximation_def mapSegment_def)

lemma sym_cases:
  assumes "rd \<in> {roundDouble, \<lambda>x. x}"
  shows "rd (- x) = - rd x"
  using assms by (auto simp: roundDouble_minus)

text \<open>
  Claim C4, amended. For every positive width and height and every radius, in double
  arithmetic and in exact arithmetic alike: the path is the move-to, then for each of
  the four corners a line-to and the text of that corner's points, then the close
  command; the points of the corner of index \<open>k\<close> (0 for the top right, 3 for the bottom
  right, 2 for the bottom left, 1 for the top left) are the rows of the one table,
  turned by \<open>k\<close> quarter turns, then scaled by the clamped radius, then translated to
  the corner's start, each product and each sum rounded once; and the scaled control
  vectors of a corner are exactly the quarter turns of those of the top-right corner,
  scaling and turning being interchangeable. In exact arithmetic the generator is the
  one of the first model, and there the points of every corner, taken relative to its
  start, are the points of the top-right corner, taken relative to its start, turned
  by \<open>k\<close> quarter turns. A quarter turn is the rotation by a right angle.
\<close>

theorem corner_rotation:
  assumes "0 < w" and "0 < h"
  shows "(\<forall>rd\<in>{roundDouble, \<lambda>x. x}.
            getSquirclePathR rd ns (Positional w h r) =
              moveTo ns (rd (0 + clampRadiusR rd w h r), 0)
              @ lineTo ns (rd (w - clampRadiusR rd w h r), 0)
              @ cornerTextR rd ns (rd (w - clampRadiusR rd w h r), 0) 0 (clampRadiusR rd w h r)
              @ lineTo ns (w, rd (h - clampRadiusR rd w h r))
              @ cornerTextR rd ns (w, rd (h - clampRadiusR rd w h r)) 3 (clampRadiusR rd w h r)
              @ lineTo ns (rd (0 + clampRadiusR rd w h r), h)
              @ cornerTextR rd ns (rd (0 + clampRadiusR rd w h r), h) 2 (clampRadiusR rd w h r)
              @ lineTo ns (0, rd (0 + clampRadiusR rd w h r))
              @ cornerTextR rd ns (0, rd (0 + clampRadiusR rd w h r)) 1 (clampRadiusR rd w h r)
              @ '' Z''
          \<and> (\<forall>k\<in>{0, 1, 2, 3}. \<forall>start.
                cornerPointsR rd start k (clampRadiusR rd w h r) =
                  map (mapSegment (\<lambda>c. vecAddR rd start
                         (vecMulR rd ((quarterTurn ^^ nat k) c) (clampRadiusR rd w h r))))
                    (tableR rd))
          \<and> (\<forall>k\<in>{0, 1, 2, 3}. \<forall>c.
                vecMulR rd ((quarterTurn ^^ nat k) c) (clampRadiusR rd w h r) =
                  (quarterTurn ^^ nat k) (vecMulR rd c (clampRadiusR rd w h r))))
       \<and> getSquirclePathR (\<lambda>x. x) ns (Positional w h r) = getSquirclePath ns (Positional w h r)
       \<and> (\<forall>k\<in>{0, 1, 2, 3}. \<forall>start anchor.
             map (mapSegment (\<lambda>p. vecSub p start))
               (cornerPointsR (\<lambda>x. x) start k (clampRadiusR (\<lambda>x. x) w h r)) =
             map (mapSegment (\<lambda>p. (quarterTurn ^^ nat k) (vecSub p anchor)))
               (cornerPointsR (\<lambda>x. x) anchor 0 (clampRadiusR (\<lambda>x. x) w h r)))
       \<and> (\<forall>x y. quarterTurn (x, y) =
             (x * cos (- (pi / 2)) - y * sin (- (pi / 2)),
              x * sin (- (pi / 2)) + y * cos (- (pi / 2))))"
proof (intro conjI ballI allI)
  fix x y :: real
  show "quarterTurn (x, y) =
          (x * cos (- (pi / 2)) - y * sin (- (pi / 2)),
           x * sin (- (pi / 2)) + y * cos (- (pi / 2)))"
    by (simp add: quarterTurn_def)
next
  show "getSquirclePathR (\<lambda>x. x) ns (Positional w h r) = getSquirclePath ns (Positional w h r)"
    by (rule exact_instance)
next
  fix rd :: "real \<Rightarrow> real"
  from assms show "getSquirclePathR rd ns (Positional w h r) =
              moveTo ns (rd (0 + clampRadiusR rd w h r), 0)
              @ lineTo ns (rd (w - clampRadiusR rd w h r), 0)
              @ cornerTextR rd ns (rd (w - clampRadiusR rd w h r), 0) 0 (clampRadiusR rd w h r)
              @ lineTo ns (w, rd (h - clampRadiusR rd w h r))
              @ cornerTextR rd ns (w, rd (h - clampRadiusR rd w h r)) 3 (clampRadiusR rd w h r)
              @ lineTo ns (rd (0 + clampRadiusR rd w h r), h)
              @ cornerTextR rd ns (rd (0 + clampRadiusR rd w h r), h) 2 (clampRadiusR rd w h r)
              @ lineTo ns (0, rd (0 + clampRadiusR rd w h r))
              @ cornerTextR rd ns (0, rd (0 + clampRadiusR rd w h r)) 1 (clampRadiusR rd w h r)
              @ '' Z''"
    by (simp add: path_shapeR)
next
  fix rd :: "real \<Rightarrow> real" and k :: int and start :: vec
  assume "k \<in> {0, 1, 2, 3}"
  then show "cornerPointsR rd start k (clampRadiusR rd w h r) =
      map (mapSegment (\<lambda>c. vecAddR rd start
             (vecMulR rd ((quarterTurn ^^ nat k) c) (clampRadiusR rd w h r))))
        (tableR rd)"
    by (rule cornerPointsR_funpow)
next
  fix rd :: "real \<Rightarrow> real" and k :: int and c :: vec
  assume "rd \<in> {roundDouble, \<lambda>x. x}"
  then have "rd (- x) = - rd x" for x
    by (rule sym_cases)
  then show "vecMulR rd ((quarterTurn ^^ nat k) c) (clampRadiusR rd w h r) =
      (quarterTurn ^^ nat k) (vecMulR rd c (clampRadiusR rd w h r))"
    by (simp add: funpow_quarterTurn_vecMulR)
next
  fix k :: int and start anchor :: vec
  assume "k \<in> {0, 1, 2, 3}"
  then show "map (mapSegment (\<lambda>p. vecSub p start))
               (cornerPointsR (\<lambda>x. x) start k (clampRadiusR (\<lambda>x. x) w h r)) =
             map (mapSegment (\<lambda>p. (quarterTurn ^^ nat k) (vecSub p anchor)))
               (cornerPointsR (\<lambda>x. x) anchor 0 (clampRadiusR (\<lambda>x. x) w h r))"
    by (rule cornerPointsR_relative)
qed

text \<open>
  The claim C4 as it is written has the emitted coordinates of the corners map onto
  each other under a quarter turn and a translation. In double arithmetic they do not.
  At \<open>100 \<times> 100\<close> with radius 20 the clamped radius is 20 and the top-right and top-left
  corners start at \<open>(80, 0)\<close> and \<open>(0, 20)\<close>. The first two control points of the
  top-right corner are \<open>(86, 0)\<close> and \<open>(89.46, 0)\<close>, those of the top-left corner
  \<open>(0, 14)\<close> and \<open>(0, 10.540000000000001)\<close>, as doubles: the first pair is a quarter
  turn and the translation by \<open>(0, 100)\<close> apart, the second pair is not, so no
  translation serves for both; and relative to the starts the second pair is not a
  quarter turn apart either.
\<close>

lemma tr_first:
  "fst (cornerPointsR roundDouble (80, 0) 0 20 ! 0) = (86, 0)"
proof -
  have "fst (cornerPointsR roundDouble (80, 0) 0 20 ! 0) =
      vecAddR roundDouble (80, 0)
        (vecMulR roundDouble (rotBy90 (roundDouble (3 / 10), roundDouble 0) 0) 20)"
    by (simp add: cornerPointsR_first mapSegment_def)
  also have "\<dots> = (86, 0)"
    by code_simp
  finally show ?thesis .
qed

lemma tr_second:
  "fst (snd (cornerPointsR roundDouble (80, 0) 0 20 ! 0)) =
     (6295187854133821 / 70368744177664, 0)"
proof -
  have "fst (snd (cornerPointsR roundDouble (80, 0) 0 20 ! 0)) =
      vecAddR roundDouble (80, 0)
        (vecMulR roundDouble (rotBy90 (roundDouble (473 / 1000), roundDouble 0) 0) 20)"
    by (simp add: cornerPointsR_first mapSegment_def)
  also have "\<dots> = (6295187854133821 / 70368744177664, 0)"
    by code_simp
  finally show ?thesis .
qed

lemma tl_first:
  "fst (cornerPointsR roundDouble (0, 20) 1 20 ! 0) = (0, 14)"
proof -
  have "fst (cornerPointsR roundDouble (0, 20) 1 20 ! 0) =
      vecAddR roundDouble (0, 20)
        (vecMulR roundDouble (rotBy90 (roundDouble (3 / 10), roundDouble 0) 1) 20)"
    by (simp add: cornerPointsR_first mapSegment_def)
  also have "\<dots> = (0, 14)"
    by code_simp
  finally show ?thesis .
qed

lemma tl_second:
  "fst (snd (cornerPointsR roundDouble (0, 20) 1 20 ! 0)) =
     (0, 5933492509060629 / 562949953421312)"
proof -
  have "fst (snd (cornerPointsR roundDouble (0, 20) 1 20 ! 0)) =
      vecAddR roundDouble (0, 20)
        (vecMulR roundDouble (rotBy90 (roundDouble (473 / 1000), roundDouble 0) 1) 20)"
    by (simp add: cornerPointsR_first mapSegment_def)
  also have "\<dots> = (0, 5933492509060629 / 562949953421312)"
    by code_simp
  finally show ?thesis .
qed

lemma anchors_100_100_20:
  "clampRadiusR roundDouble 100 100 20 = 20"
  "roundDouble (100 - 20) = 80"
  "roundDouble (0 + 20) = 20"
  by code_simp+

theorem corner_rotation_counterexample:
  "clampRadiusR roundDouble 100 100 20 = 20
   \<and> roundDouble (100 - 20) = 80
   \<and> roundDouble (0 + 20) = 20
   \<and> vecSub (fst (cornerPointsR roundDouble (0, 20) 1 20 ! 0))
        (quarterTurn (fst (cornerPointsR roundDouble (80, 0) 0 20 ! 0)))
      \<noteq> vecSub (fst (snd (cornerPointsR roundDouble (0, 20) 1 20 ! 0)))
          (quarterTurn (fst (snd (cornerPointsR roundDouble (80, 0) 0 20 ! 0))))
   \<and> vecSub (fst (snd (cornerPointsR roundDouble (0, 20) 1 20 ! 0))) (0, 20)
      \<noteq> quarterTurn (vecSub (fst (snd (cornerPointsR roundDouble (80, 0) 0 20 ! 0))) (80, 0))"
proof -
  have moved: "vecSub (fst (cornerPointsR roundDouble (0, 20) 1 20 ! 0))
        (quarterTurn (fst (cornerPointsR roundDouble (80, 0) 0 20 ! 0)))
      \<noteq> vecSub (fst (snd (cornerPointsR roundDouble (0, 20) 1 20 ! 0)))
          (quarterTurn (fst (snd (cornerPointsR roundDouble (80, 0) 0 20 ! 0))))"
    unfolding tr_first tr_second tl_first tl_second
    by (simp add: vecSub_def quarterTurn_def)
  have relative: "vecSub (fst (snd (cornerPointsR roundDouble (0, 20) 1 20 ! 0))) (0, 20)
      \<noteq> quarterTurn (vecSub (fst (snd (cornerPointsR roundDouble (80, 0) 0 20 ! 0))) (80, 0))"
    unfolding tr_second tl_second
    by (simp add: vecSub_def quarterTurn_def)
  show ?thesis
    by (intro conjI anchors_100_100_20 moved relative)
qed

text \<open>
  The amended C4 at \<open>100 \<times> 100\<close> with radius 20 in double arithmetic: the third control
  vector of the table, scaled (its first coordinate is the double that prints as
  \<^verbatim>\<open>12.379999999999999\<close>), and the same vector turned three times; and at
  \<open>200 \<times> 200\<close> with radius 100 in exact arithmetic: the points of the bottom-right
  corner.
\<close>

theorem corner_rotation_witness:
  "0 < (100::real)
   \<and> roundDouble \<in> {roundDouble, \<lambda>x. x}
   \<and> (3::int) \<in> {0, 1, 2, 3}
   \<and> clampRadiusR roundDouble 100 100 20 = 20
   \<and> vecMulR roundDouble (roundDouble (619 / 1000), roundDouble (39 / 1000)) 20 =
       (3484660211677921 / 281474976710656, 3512807709348987 / 4503599627370496)
   \<and> vecMulR roundDouble
         ((quarterTurn ^^ 3) (roundDouble (619 / 1000), roundDouble (39 / 1000))) 20 =
       (- (3512807709348987 / 4503599627370496), 3484660211677921 / 281474976710656)
   \<and> cornerPointsR roundDouble (100, 80) 3 20 =
       map (mapSegment (\<lambda>c. vecAddR roundDouble (100, 80)
              (vecMulR roundDouble ((quarterTurn ^^ 3) c) 20)))
         (tableR roundDouble)
   \<and> clampRadiusR (\<lambda>x. x) 200 200 100 = 100
   \<and> cornerPointsR (\<lambda>x. x) (200, 100) 3 100 =
       [((200, 130), (200, 147.3), (196.1, 161.9)),
        ((191.2, 180.4), (180.4, 191.2), (161.9, 196.1)),
        ((147.3, 200), (130, 200), (100, 200))]
   \<and> map (mapSegment (\<lambda>p. vecSub p (200, 100))) (cornerPointsR (\<lambda>x. x) (200, 100) 3 100) =
       map (mapSegment (\<lambda>p. (quarterTurn ^^ 3) (vecSub p (100, 0))))
         (cornerPointsR (\<lambda>x. x) (100, 0) 0 100)"
proof -
  have pos: "0 < (100::real)" and pos': "0 < (200::real)"
    by simp_all
  have mem: "roundDouble \<in> {roundDouble, \<lambda>x. x}"
    by simp
  have idx: "(3::int) \<in> {0, 1, 2, 3}"
    by simp
  have three: "nat 3 = 3"
    by simp
  have cr: "clampRadiusR roundDouble 100 100 20 = 20"
    by code_simp
  have cr': "clampRadiusR (\<lambda>x. x) 200 200 100 = 100"
    by (simp add: clampRadiusR_def)
  have scaled: "vecMulR roundDouble (roundDouble (619 / 1000), roundDouble (39 / 1000)) 20 =
       (3484660211677921 / 281474976710656, 3512807709348987 / 4503599627370496)"
    by code_simp
  note rounded = corner_rotation [OF pos pos, of decimalString 20, THEN conjunct1, THEN bspec, OF mem]
  note exact = corner_rotation [OF pos' pos', of decimalString 100, THEN conjunct2, THEN conjunct2,
      THEN conjunct1, THEN bspec, OF idx]
  from rounded idx have "vecMulR roundDouble
         ((quarterTurn ^^ nat 3) (roundDouble (619 / 1000), roundDouble (39 / 1000)))
         (clampRadiusR roundDouble 100 100 20) =
       (quarterTurn ^^ nat 3)
         (vecMulR roundDouble (roundDouble (619 / 1000), roundDouble (39 / 1000))
            (clampRadiusR roundDouble 100 100 20))"
    by blast
  then have turned: "vecMulR roundDouble
         ((quarterTurn ^^ 3) (roundDouble (619 / 1000), roundDouble (39 / 1000))) 20 =
       (- (3512807709348987 / 4503599627370496), 3484660211677921 / 281474976710656)"
    unfolding cr three scaled by (simp add: quarterTurn_funpow quarterTurn_def)
  from rounded idx have "cornerPointsR roundDouble (100, 80) 3 (clampRadiusR roundDouble 100 100 20) =
       map (mapSegment (\<lambda>c. vecAddR roundDouble (100, 80)
              (vecMulR roundDouble ((quarterTurn ^^ nat 3) c) (clampRadiusR roundDouble 100 100 20))))
         (tableR roundDouble)"
    by blast
  then have pts: "cornerPointsR roundDouble (100, 80) 3 20 =
       map (mapSegment (\<lambda>c. vecAddR roundDouble (100, 80)
              (vecMulR roundDouble ((quarterTurn ^^ 3) c) 20)))
         (tableR roundDouble)"
    unfolding cr three .
  have lit: "cornerPointsR (\<lambda>x. x) (200, 100) 3 100 =
       [((200, 130), (200, 147.3), (196.1, 161.9)),
        ((191.2, 180.4), (180.4, 191.2), (161.9, 196.1)),
        ((147.3, 200), (130, 200), (100, 200))]"
    by (simp add: cornerPointsR_def tableR_exact squircleBezierApproximation_def mapSegment_def
        rotBy90_index quarterTurn_def vecAddR_def vecMulR_def)
  from exact have rel: "map (mapSegment (\<lambda>p. vecSub p (200, 100)))
        (cornerPointsR (\<lambda>x. x) (200, 100) 3 100) =
      map (mapSegment (\<lambda>p. (quarterTurn ^^ 3) (vecSub p (100, 0))))
        (cornerPointsR (\<lambda>x. x) (100, 0) 0 100)"
    unfolding cr' three by blast
  show ?thesis
    by (intro conjI pos mem idx cr scaled turned pts cr' lit rel)
qed


text \<open>
  The start of the contour and the end of its last segment, which the properties of
  the exact model below are about, are computed without rounding in double arithmetic
  as well, whenever the clamped radius is a double.
\<close>

lemma closing_point_rounded:
  assumes "rd 0 = 0" and "rd 1 = 1" and "\<And>x. rd (- x) = - rd x" and "rd cr = cr"
  shows "rd (0 + cr) = cr"
    and "snd (snd (last (cornerPointsR rd (0, rd (0 + cr)) 1 cr))) = (cr, 0)"
  using assms
  by (simp_all add: cornerPointsR_def tableR_def squircleBezierApproximation_def mapSegment_def
      rotBy90_index quarterTurn_def vecAddR_def vecMulR_def)

lemma last_corner_target:
  "snd (snd (last (cornerPoints (0, cr) 1 cr))) = (cr, 0)"
  by (simp add: cornerPoints_def squircleBezierApproximation_def mapSegment_def
      rotBy90_index quarterTurn_def vecAdd_def vecMul_def)

lemma cornerText_last:
  "cornerText ns start k cr =
     concat (map (curveTo ns) (butlast (cornerPoints start k cr)))
     @ curveTo ns (last (cornerPoints start k cr))"
  by (simp add: cornerText_def cornerPoints_def squircleBezierApproximation_def)

text \<open>
  Claim C5. For every positive width and height and every radius that is not negative,
  the path begins with a move-to command at \<open>(r, 0)\<close>, \<open>r\<close> being the clamped radius,
  it ends with the last cubic segment of the last corner followed by the close command,
  and the end point of that segment is the starting point \<open>(r, 0)\<close>.
\<close>

theorem contour_closed:
  assumes "0 < w" and "0 < h" and "0 \<le> r"
  shows "prefix (moveTo ns (clampRadius w h r, 0)) (getSquirclePath ns (Positional w h r))
       \<and> suffix (curveTo ns (last (cornerPoints (0, clampRadius w h r) 1 (clampRadius w h r)))
                 @ '' Z'')
           (getSquirclePath ns (Positional w h r))
       \<and> snd (snd (last (cornerPoints (0, clampRadius w h r) 1 (clampRadius w h r)))) =
           (clampRadius w h r, 0)"
proof (intro conjI)
  have shape: "getSquirclePath ns (Positional w h r) =
     moveTo ns (clampRadius w h r, 0)
     @ lineTo ns (w - clampRadius w h r, 0) @ cornerText ns (w - clampRadius w h r, 0) 0 (clampRadius w h r)
     @ lineTo ns (w, h - clampRadius w h r) @ cornerText ns (w, h - clampRadius w h r) 3 (clampRadius w h r)
     @ lineTo ns (clampRadius w h r, h) @ cornerText ns (clampRadius w h r, h) 2 (clampRadius w h r)
     @ lineTo ns (0, clampRadius w h r) @ cornerText ns (0, clampRadius w h r) 1 (clampRadius w h r)
     @ '' Z''"
    using assms by (simp add: path_shape)
  show "prefix (moveTo ns (clampRadius w h r, 0)) (getSquirclePath ns (Positional w h r))"
    unfolding shape by (rule prefixI) (rule refl)
  show "suffix (curveTo ns (last (cornerPoints (0, clampRadius w h r) 1 (clampRadius w h r)))
                 @ '' Z'')
           (getSquirclePath ns (Positional w h r))"
    unfolding shape
    by (subst (4) cornerText_last) (simp add: suffix_def)
  show "snd (snd (last (cornerPoints (0, clampRadius w h r) 1 (clampRadius w h r)))) =
           (clampRadius w h r, 0)"
    by (rule last_corner_target)
qed


text \<open>
  At \<open>200 \<times> 200\<close> with radius 100, numbers printed in decimal: the path begins with
  \<^verbatim>\<open>M 100 0\<close> and ends with a curve to \<^verbatim>\<open>100 0\<close> and \<^verbatim>\<open>Z\<close>.
\<close>

theorem contour_closed_witness:
  "0 < (200::real) \<and> 0 \<le> (100::real)
   \<and> prefix ''M 100 0'' (getSquirclePath decimalString (Positional 200 200 100))
   \<and> suffix '' C 52.7 0, 70 0, 100 0 Z'' (getSquirclePath decimalString (Positional 200 200 100))"
proof -
  have pos: "0 < (200::real)" and nonneg: "0 \<le> (100::real)"
    by simp_all
  have cr: "clampRadius 200 200 100 = 100"
    by (simp add: clampRadius_def)
  have hundred: "decimalString 100 = ''100''" and zero: "decimalString 0 = ''0''"
    and seventy: "decimalString 70 = ''70''"
    by (simp_all add: decimalString_def)
  have frac: "decimalString (527 / 10) = ''52.7''"
    by code_simp
  have lastseg: "last (cornerPoints (0, 100) 1 100) = ((52.7, 0), (70, 0), (100, 0))"
    by (simp add: cornerPoints_def squircleBezierApproximation_def mapSegment_def
        rotBy90_index quarterTurn_def vecAdd_def vecMul_def)
  from contour_closed [OF pos pos nonneg, of decimalString]
  show ?thesis
    unfolding cr lastseg
    by (simp add: moveTo_def curveTo_def hundred zero seventy frac pos)
qed

text \<open>
  Claim C2, amended. For every width and height other than zero and every radius, the
  path begins with a move-to command at the point \<open>(r, 0)\<close>, where \<open>r\<close> is the
  clamped radius \<open>min(radius, width/2, height/2)\<close>; in particular the paths for
  \<open>(40, 100, 50)\<close> and \<open>(40, 100, 20)\<close> both begin with a move-to at \<open>(20, 0)\<close>.
\<close>

theorem start_point:
  assumes "w \<noteq> 0" and "h \<noteq> 0"
  shows "prefix (''M '' @ ns (min r (min (w / 2) (h / 2))) @ '' '' @ ns 0)
           (getSquirclePath ns (Positional w h r))
       \<and> prefix (''M '' @ ns 20 @ '' '' @ ns 0) (getSquirclePath ns (Positional 40 100 50))
       \<and> prefix (''M '' @ ns 20 @ '' '' @ ns 0) (getSquirclePath ns (Positional 40 100 20))"
proof -
  have start: "prefix (''M '' @ ns (min r' (min (w' / 2) (h' / 2))) @ '' '' @ ns 0)
                 (getSquirclePath ns (Positional w' h' r'))"
    if "w' \<noteq> 0" and "h' \<noteq> 0" for w' h' r'
    unfolding path_shape [OF that] moveTo_def clampRadius_def
    by (rule prefixI) simp
  have "prefix (''M '' @ ns (min 50 (min (40 / 2) (100 / 2))) @ '' '' @ ns 0)
          (getSquirclePath ns (Positional 40 100 50))"
    by (rule start) simp_all
  moreover have "prefix (''M '' @ ns (min 20 (min (40 / 2) (100 / 2))) @ '' '' @ ns 0)
          (getSquirclePath ns (Positional 40 100 20))"
    by (rule start) simp_all
  ultimately show ?thesis
    using start [OF assms] by simp
qed

text \<open>
  The claim C2 as it is written, for every width and height, fails where a dimension is
  zero: \<^verbatim>\<open>getSquirclePath(0, 100, 20)\<close> returns the empty string before any radius is
  clamped, and the empty string begins with no move-to command.
\<close>

theorem start_point_counterexample:
  "\<not> prefix (''M '' @ decimalString (min 20 (min (0 / 2) (100 / 2))) @ '' '' @ decimalString 0)
       (getSquirclePath decimalString (Positional 0 100 20))"
  by (simp add: getSquirclePath_def)

text \<open>
  The amended C2 at the inputs of the test suite, with numbers printed in decimal: both
  paths begin with \<^verbatim>\<open>M 20 0\<close>.
\<close>

theorem start_point_witness:
  "(40::real) \<noteq> 0 \<and> (100::real) \<noteq> 0
   \<and> prefix ''M 20 0'' (getSquirclePath decimalString (Positional 40 100 50))
   \<and> prefix ''M 20 0'' (getSquirclePath decimalString (Positional 40 100 20))"
proof -
  have twenty: "decimalString 20 = ''20''" and zero: "decimalString 0 = ''0''"
    by (simp_all add: decimalString_def)
  have "(40::real) \<noteq> 0" and "(100::real) \<noteq> 0"
    by simp_all
  from start_point [OF this, of decimalString 50]
  show ?thesis
    by (simp add: twenty zero)
qed

text \<open>
  Claim C3. For every radius, if the width or the height is zero the generator returns
  exactly the empty string, in either shape of the call: no part of a contour is emitted.
\<close>

theorem degenerate_empty:
  assumes "w = 0 \<or> h = 0"
  shows "getSquirclePath ns (Positional w h r) = []
       \<and> getSquirclePath ns (Named \<lparr>width = w, height = h, radius = r\<rparr>) = []"
  using assms by (auto simp: getSquirclePath_def)

theorem degenerate_empty_witness:
  "((0::real) = 0 \<or> (100::real) = 0)
   \<and> getSquirclePath decimalString (Positional 0 100 20) = []
   \<and> getSquirclePath decimalString (Named \<lparr>width = 100, height = 0, radius = 20\<rparr>) = []"
  using degenerate_empty [of 0 100 decimalString 20] degenerate_empty [of 100 0 decimalString 20]
  by simp

text \<open>
  Claim C6. A call with the positional triple and a call with the record of the same
  three fields return the same string: both shapes are reduced to one triple before the
  shared body runs.
\<close>

theorem call_shapes_agree:
  "getSquirclePath ns (Named opts) =
     getSquirclePath ns (Positional (width opts) (height opts) (radius opts))
   \<and> getSquirclePath ns (Positional w h r) =
     getSquirclePath ns (Named \<lparr>width = w, height = h, radius = r\<rparr>)"
  by (simp add: getSquirclePath_def)

theorem call_shapes_agree_witness:
  "getSquirclePath decimalString (Positional 100 100 20) =
     getSquirclePath decimalString (Named \<lparr>width = 100, height = 100, radius = 20\<rparr>)"
  by (rule call_shapes_agree [THEN conjunct2])

lemma hexValue_hexDigits:
  assumes "n < 16"
  shows "hexValue (hexDigits ! n) = Some n"
proof -
  have "\<forall>n\<in>set [0..<16]. hexValue (hexDigits ! n) = Some n"
    by code_simp
  with assms show ?thesis by simp
qed

lemma hexDigits_member:
  assumes "n < 16"
  shows "hexDigits ! n \<in> set hexDigits"
proof -
  have "length hexDigits = 16"
    by (simp add: hexDigits_def)
  with assms show ?thesis
    by (simp only: nth_mem)
qed

lemma of_char_nibbles:
  "(of_char c :: nat) div 16 < 16" "(of_char c :: nat) mod 16 < 16"
proof -
  show "(of_char c :: nat) div 16 < 16"
    by (rule less_mult_imp_div_less) simp
  show "(of_char c :: nat) mod 16 < 16"
    by simp
qed

lemma unreserved_not_percent: "uriUnreserved c \<Longrightarrow> c \<noteq> CHR ''%''"
  by (auto simp: uriUnreserved_def)

lemma decode_encodeChar:
  "decodeURIComponent (encodeChar c @ rest) = map_option ((#) c) (decodeURIComponent rest)"
proof (cases "uriUnreserved c")
  case True
  then show ?thesis
    by (simp add: encodeChar_def unreserved_not_percent)
next
  case False
  have "char_of (16 * ((of_char c :: nat) div 16) + (of_char c :: nat) mod 16) = c"
    by simp
  with False show ?thesis
    by (simp add: encodeChar_def Let_def hexValue_hexDigits of_char_nibbles)
qed

lemma decode_encode: "decodeURIComponent (encodeURIComponent s) = Some s"
  by (induction s) (simp_all add: encodeURIComponent_def decode_encodeChar)

lemma percentEncoded_encodeChar:
  "percentEncoded (encodeChar c @ rest) = percentEncoded rest"
  by (simp add: encodeChar_def Let_def hexDigits_member of_char_nibbles unreserved_not_percent)

lemma percentEncoded_encode: "percentEncoded (encodeURIComponent s)"
  by (induction s) (simp_all add: encodeURIComponent_def percentEncoded_encodeChar)

text \<open>
  Claim C7. For every width, height and radius, the embeddable reference is the prefix
  \<^verbatim>\<open>data:image/svg+xml,\<close> followed by a payload that is percent-encoded (unreserved
  characters and escapes of two hexadecimal digits only, so no base64 text with its
  \<^verbatim>\<open>+\<close>, \<^verbatim>\<open>/\<close> or \<^verbatim>\<open>=\<close>), and decoding the payload gives back the vector document
  of the same inputs.
\<close>

theorem reference_decodes:
  "prefix ''data:image/svg+xml,'' (getSquircleDataUri ns w h r)
   \<and> percentEncoded (drop 19 (getSquircleDataUri ns w h r))
   \<and> decodeURIComponent (drop 19 (getSquircleDataUri ns w h r)) = Some (getSquircleSVG ns w h r)"
  by (simp add: getSquircleDataUri_def decode_encode percentEncoded_encode)

text \<open>
  At \<open>100 \<times> 100\<close> with radius 20: the reference begins with the encoded
  \<^verbatim>\<open><svg xmlns="http\<close> and its payload decodes to the document.
\<close>

theorem reference_decodes_witness:
  \<open>prefix ''data:image/svg+xml,%3Csvg%20xmlns%3D%22http'' (getSquircleDataUri decimalString 100 100 20)
   \<and> decodeURIComponent (drop 19 (getSquircleDataUri decimalString 100 100 20)) =
       Some (getSquircleSVG decimalString 100 100 20)\<close>
proof -
  have \<open>prefix (''data:image/svg+xml,'' @ encodeURIComponent ''<svg xmlns="http'')
          (getSquircleDataUri decimalString 100 100 20)\<close>
    by (simp add: getSquircleDataUri_def getSquircleSVG_def encodeURIComponent_def)
  moreover have \<open>encodeURIComponent ''<svg xmlns="http'' = ''%3Csvg%20xmlns%3D%22http''\<close>
    by (simp add: encodeURIComponent_def encodeChar_def uriUnreserved_def hexDigits_def)
  ultimately show ?thesis
    using reference_decodes [of decimalString 100 100 20] by simp
qed

text \<open>
  Claim C10. When the width or the height is zero, only the generator returns the empty
  string: the vector document is the full \<^verbatim>\<open>svg\<close> element with the given width and
  height and an empty path data attribute, and the embeddable reference is the prefix
  followed by the percent-encoding of that document; neither is empty.
\<close>

theorem degenerate_renderers:
  assumes "w = 0 \<or> h = 0"
  shows \<open>getSquirclePath ns (Positional w h r) = []
       \<and> getSquircleSVG ns w h r =
           ''<svg xmlns="http://www.w3.org/2000/svg" width="'' @ ns w @ ''" height="'' @ ns h
             @ ''"><path d="" fill="black" /></svg>''
       \<and> getSquircleSVG ns w h r \<noteq> []
       \<and> getSquircleDataUri ns w h r =
           ''data:image/svg+xml,'' @ encodeURIComponent (getSquircleSVG ns w h r)
       \<and> percentEncoded (drop 19 (getSquircleDataUri ns w h r))
       \<and> getSquircleDataUri ns w h r \<noteq> []\<close>
proof -
  from assms have empty: "getSquirclePath ns (Positional w h r) = []"
    by (auto simp: getSquirclePath_def)
  then show ?thesis
    by (simp add: getSquircleSVG_def getSquircleDataUri_def percentEncoded_encode)
qed

text \<open>At \<open>(0, 100, 20)\<close>, numbers printed in decimal: the document and the reference in full.\<close>

theorem degenerate_renderers_witness:
  \<open>((0::real) = 0 \<or> (100::real) = 0)
   \<and> getSquirclePath decimalString (Positional 0 100 20) = []
   \<and> getSquircleSVG decimalString 0 100 20 =
       ''<svg xmlns="http://www.w3.org/2000/svg" width="0" height="100"><path d="" fill="black" /></svg>''
   \<and> getSquircleDataUri decimalString 0 100 20 =
       ''data:image/svg+xml,%3Csvg%20xmlns%3D%22http%3A%2F%2Fwww.w3.org%2F2000%2Fsvg%22%20width%3D%220%22%20height%3D%22100%22%3E%3Cpath%20d%3D%22%22%20fill%3D%22black%22%20%2F%3E%3C%2Fsvg%3E''\<close>
proof -
  have zero: "decimalString 0 = ''0''" and hundred: "decimalString 100 = ''100''"
    by (simp_all add: decimalString_def)
  have hyp: "(0::real) = 0 \<or> (100::real) = 0"
    by simp
  note inst = degenerate_renderers [OF hyp, of decimalString 20]
  have svg: \<open>getSquircleSVG decimalString 0 100 20 =
       ''<svg xmlns="http://www.w3.org/2000/svg" width="0" height="100"><path d="" fill="black" /></svg>''\<close>
    using inst by (simp add: zero hundred)
  have enc: \<open>encodeURIComponent
       ''<svg xmlns="http://www.w3.org/2000/svg" width="0" height="100"><path d="" fill="black" /></svg>''
     = ''%3Csvg%20xmlns%3D%22http%3A%2F%2Fwww.w3.org%2F2000%2Fsvg%22%20width%3D%220%22%20height%3D%22100%22%3E%3Cpath%20d%3D%22%22%20fill%3D%22black%22%20%2F%3E%3C%2Fsvg%3E''\<close>
    by (simp add: encodeURIComponent_def encodeChar_def uriUnreserved_def hexDigits_def)
  have uri: "getSquircleDataUri decimalString 0 100 20 =
      ''data:image/svg+xml,'' @ encodeURIComponent (getSquircleSVG decimalString 0 100 20)"
    using inst by blast
  have path: "getSquirclePath decimalString (Positional 0 100 20) = []"
    using inst by blast
  show ?thesis
    using hyp path svg uri enc by simp
qed

section \<open>Properties of the capability queries\<close>

text \<open>
  Claim C8 says that the clip-path query never throws and returns false wherever there
  is no \<^verbatim>\<open>CSS\<close> object. The code does not do that on a host with a window whose
  \<^verbatim>\<open>CSS\<close> is \<^verbatim>\<open>null\<close>: there the query throws, and so do
  \<^verbatim>\<open>createSquircleStyles\<close> and \<^verbatim>\<open>applySquircle\<close>, which call it first.
\<close>

theorem capability_query_throws:
  "hasWindow nullCssEnv \<and> CSS nullCssEnv = CSSNull
   \<and> supportsClipPath nullCssEnv = Throws
   \<and> createSquircleStyles nullCssEnv decimalString 100 100 borderedOptions = Throws
   \<and> fst (applySquircle nullCssEnv decimalString 0 borderedOptions (pageOf 100 100)) =
       Inl TypeError"
  by (simp add: nullCssEnv_def supportsClipPath_def createSquircleStyles_def applySquircle_def)

text \<open>
  On every other host, where the read of \<^verbatim>\<open>CSS.supports\<close> does not throw either, the
  query does what the claim says: it does not throw; it
  returns false where there is no window, where \<^verbatim>\<open>CSS\<close> is not defined, where the
  object has no \<^verbatim>\<open>supports\<close> function and where the call of \<^verbatim>\<open>CSS.supports\<close> throws;
  it returns true exactly when there is a window and the call of \<^verbatim>\<open>CSS.supports\<close>
  returns true. The resize query is false where there is no window.
\<close>

lemma supportsClipPath_otherwise:
  assumes "CSS env \<noteq> CSSNull" and "\<And>css. CSS env = CSSObj css \<Longrightarrow> supports css \<noteq> Throws"
  shows \<open>supportsClipPath env \<noteq> Throws
   \<and> (\<not> hasWindow env \<longrightarrow> supportsClipPath env = Returns False)
   \<and> (CSS env = CSSUndefined \<longrightarrow> supportsClipPath env = Returns False)
   \<and> (\<forall>css. CSS env = CSSObj css \<longrightarrow> supports css = Returns None
          \<longrightarrow> supportsClipPath env = Returns False)
   \<and> (\<forall>css f. CSS env = CSSObj css \<longrightarrow> supports css = Returns (Some f)
          \<longrightarrow> f ''clip-path'' ''path("M0 0")'' = Throws
          \<longrightarrow> supportsClipPath env = Returns False)
   \<and> (supportsClipPath env = Returns True \<longleftrightarrow>
        hasWindow env
        \<and> (\<exists>css f. CSS env = CSSObj css \<and> supports css = Returns (Some f)
               \<and> f ''clip-path'' ''path("M0 0")'' = Returns True))
   \<and> (\<not> hasWindow env \<longrightarrow> \<not> hasResizeObserver env)\<close>
  using assms
  by (auto simp: supportsClipPath_def tryCatch_def hasResizeObserver_def
      split: option.splits outcome.splits CSSGlobal.splits)

lemma supportsClipPath_throwing_read:
  "hasWindow env \<Longrightarrow> CSS env = CSSObj css \<Longrightarrow> supports css = Throws
     \<Longrightarrow> supportsClipPath env = Throws"
  by (simp add: supportsClipPath_def)

lemma supportsClipPath_without_window:
  "\<not> hasWindow env \<Longrightarrow> supportsClipPath env = Returns False"
  by (simp add: supportsClipPath_def)

lemma supportsClipPath_hosts:
  "supportsClipPath headlessEnv = Returns False"
  "supportsClipPath noCssEnv = Returns False"
  "supportsClipPath noSupportsEnv = Returns False"
  "supportsClipPath hostileEnv = Returns False"
  "supportsClipPath legacyEnv = Returns False"
  "supportsClipPath browserEnv = Returns True"
  by (simp_all add: supportsClipPath_def tryCatch_def headlessEnv_def noCssEnv_def
      noSupportsEnv_def hostileEnv_def legacyEnv_def browserEnv_def)

section \<open>Properties of the adaptive binding\<close>

lemma style_setStyle:
  "style (setStyle n prop v d) =
     (style d)(n := (style d n)(prop \<mapsto> v))"
  by (simp add: setStyle_def)

lemma updateStyles_zero:
  assumes "offsetWidth d (element c) = 0 \<or> offsetHeight d (element c) = 0"
  shows "updateStyles ns c d = (c, d)"
  using assms by (auto simp: updateStyles_def Let_def)

lemma updateStyles_precise:
  assumes "offsetWidth d (element c) \<noteq> 0" and "offsetHeight d (element c) \<noteq> 0"
    and "isSupported c" and "element c < nextNode d"
  shows "style (snd (updateStyles ns c d)) (element c) ''clipPath'' =
           Some (cssPath (getSquirclePath ns
             (Positional (offsetWidth d (element c)) (offsetHeight d (element c)) (cRadius c))))"
    and "style (snd (updateStyles ns c d)) (element c) ''WebkitClipPath'' =
           Some (cssPath (getSquirclePath ns
             (Positional (offsetWidth d (element c)) (offsetHeight d (element c)) (cRadius c))))"
  using assms
  by (auto simp: updateStyles_def Let_def setStyle_def createElementNS_def setAttribute_def
      appendChild_def split: option.splits prod.splits)

lemma updateStyles_fallback:
  assumes "offsetWidth d (element c) \<noteq> 0" and "offsetHeight d (element c) \<noteq> 0"
    and "\<not> isSupported c"
  shows "style (snd (updateStyles ns c d)) (element c) ''borderRadius'' =
           Some (ns (cRadius c) @ ''px'')"
    and "style (snd (updateStyles ns c d)) (element c) ''overflow'' = Some ''hidden''"
    and "style (snd (updateStyles ns c d)) (element c) ''clipPath'' =
           style d (element c) ''clipPath''"
    and "style (snd (updateStyles ns c d)) (element c) ''WebkitClipPath'' =
           style d (element c) ''WebkitClipPath''"
  using assms
  by (auto simp: updateStyles_def Let_def setStyle_def)

lemma applySquircle_style:
  assumes "supportsClipPath env = Returns b"
  shows "style (snd (applySquircle env ns el opts d)) =
         style (snd (updateStyles ns (initialClosure b el opts d)
                       (d\<lparr>nextFunction := Suc (nextFunction d)\<rparr>)))"
  using assms
  by (simp add: applySquircle_def initialClosure_def Let_def split_def newResizeObserver_def
      observe_def addEventListener_def)

lemma initialClosure_fields:
  "element (initialClosure b el opts d) = el"
  "cRadius (initialClosure b el opts d) = optRadius opts"
  "isSupported (initialClosure b el opts d) = b"
  by (simp_all add: initialClosure_def)

text \<open>
  Claim C1. Let the surface be an element of the document with positive width and
  height. When the capability query returns true, \<^verbatim>\<open>createSquircleStyles\<close> returns,
  and \<^verbatim>\<open>applySquircle\<close> sets on the element, as the clip path in the standard and in
  the prefixed property, the text \<^verbatim>\<open>path('\<close>, then exactly the generator's output for
  that width, that height and the radius of the options, then \<^verbatim>\<open>')\<close>. When the query
  returns false, they give the border radius of the radius of the options in pixels
  (the radius as the options carry it, which the generator alone clamps) with hidden
  overflow, and no clip path: \<^verbatim>\<open>createSquircleStyles\<close> returns none and
  \<^verbatim>\<open>applySquircle\<close> leaves both clip properties of the element as they were.
\<close>

theorem clip_or_fallback:
  assumes "0 < w" and "0 < h"
    and "offsetWidth d el = w" and "offsetHeight d el = h" and "el < nextNode d"
  shows "(supportsClipPath env = Returns True \<longrightarrow>
            createSquircleStyles env ns w h opts =
              Returns \<lparr>position = ''relative'',
                       clipPath = Some (''path('' @ [CHR 0x27] @ getSquirclePath ns (Positional w h (optRadius opts)) @ [CHR 0x27] @ '')''),
                       WebkitClipPath =
                         Some (''path('' @ [CHR 0x27] @ getSquirclePath ns (Positional w h (optRadius opts)) @ [CHR 0x27] @ '')''),
                       borderRadius = None,
                       overflow = None\<rparr>
          \<and> style (snd (applySquircle env ns el opts d)) el ''clipPath'' =
              Some (''path('' @ [CHR 0x27] @ getSquirclePath ns (Positional w h (optRadius opts)) @ [CHR 0x27] @ '')'')
          \<and> style (snd (applySquircle env ns el opts d)) el ''WebkitClipPath'' =
              Some (''path('' @ [CHR 0x27] @ getSquirclePath ns (Positional w h (optRadius opts)) @ [CHR 0x27] @ '')''))
       \<and> (supportsClipPath env = Returns False \<longrightarrow>
            createSquircleStyles env ns w h opts =
              Returns \<lparr>position = ''relative'',
                       clipPath = None,
                       WebkitClipPath = None,
                       borderRadius = Some (ns (optRadius opts) @ ''px''),
                       overflow = Some ''hidden''\<rparr>
          \<and> style (snd (applySquircle env ns el opts d)) el ''borderRadius'' =
              Some (ns (optRadius opts) @ ''px'')
          \<and> style (snd (applySquircle env ns el opts d)) el ''overflow'' = Some ''hidden''
          \<and> style (snd (applySquircle env ns el opts d)) el ''clipPath'' = style d el ''clipPath''
          \<and> style (snd (applySquircle env ns el opts d)) el ''WebkitClipPath'' =
              style d el ''WebkitClipPath'')"
proof (intro conjI impI)
  let ?d = "d\<lparr>nextFunction := Suc (nextFunction d)\<rparr>"
  have size: "offsetWidth ?d el \<noteq> 0" "offsetHeight ?d el \<noteq> 0" and node: "el < nextNode ?d"
    using assms by simp_all
  {
    assume sup: "supportsClipPath env = Returns True"
    let ?c = "initialClosure True el opts d"
    from sup assms(1,2) show "createSquircleStyles env ns w h opts =
              Returns \<lparr>position = ''relative'',
                       clipPath = Some (''path('' @ [CHR 0x27] @ getSquirclePath ns (Positional w h (optRadius opts)) @ [CHR 0x27] @ '')''),
                       WebkitClipPath =
                         Some (''path('' @ [CHR 0x27] @ getSquirclePath ns (Positional w h (optRadius opts)) @ [CHR 0x27] @ '')''),
                       borderRadius = None,
                       overflow = None\<rparr>"
      by (simp add: createSquircleStyles_def Let_def cssPath_def)
    have "style (snd (updateStyles ns ?c ?d)) (element ?c) ''clipPath'' =
            Some (cssPath (getSquirclePath ns
              (Positional (offsetWidth ?d (element ?c)) (offsetHeight ?d (element ?c)) (cRadius ?c))))"
      by (rule updateStyles_precise) (use size node in \<open>simp_all add: initialClosure_fields\<close>)
    with assms(3,4) show "style (snd (applySquircle env ns el opts d)) el ''clipPath'' =
              Some (''path('' @ [CHR 0x27] @ getSquirclePath ns (Positional w h (optRadius opts)) @ [CHR 0x27] @ '')'')"
      by (simp add: applySquircle_style [OF sup] initialClosure_fields cssPath_def)
    have "style (snd (updateStyles ns ?c ?d)) (element ?c) ''WebkitClipPath'' =
            Some (cssPath (getSquirclePath ns
              (Positional (offsetWidth ?d (element ?c)) (offsetHeight ?d (element ?c)) (cRadius ?c))))"
      by (rule updateStyles_precise) (use size node in \<open>simp_all add: initialClosure_fields\<close>)
    with assms(3,4) show "style (snd (applySquircle env ns el opts d)) el ''WebkitClipPath'' =
              Some (''path('' @ [CHR 0x27] @ getSquirclePath ns (Positional w h (optRadius opts)) @ [CHR 0x27] @ '')'')"
      by (simp add: applySquircle_style [OF sup] initialClosure_fields cssPath_def)
  }
  {
    assume nosup: "supportsClipPath env = Returns False"
    let ?c = "initialClosure False el opts d"
    from nosup show "createSquircleStyles env ns w h opts =
              Returns \<lparr>position = ''relative'',
                       clipPath = None,
                       WebkitClipPath = None,
                       borderRadius = Some (ns (optRadius opts) @ ''px''),
                       overflow = Some ''hidden''\<rparr>"
      by (simp add: createSquircleStyles_def Let_def cssPath_def)
    have fb: "offsetWidth ?d (element ?c) \<noteq> 0" "offsetHeight ?d (element ?c) \<noteq> 0"
      "\<not> isSupported ?c"
      using size by (simp_all add: initialClosure_fields)
    from updateStyles_fallback(1) [OF fb]
    show "style (snd (applySquircle env ns el opts d)) el ''borderRadius'' =
              Some (ns (optRadius opts) @ ''px'')"
      by (simp add: applySquircle_style [OF nosup] initialClosure_fields)
    from updateStyles_fallback(2) [OF fb]
    show "style (snd (applySquircle env ns el opts d)) el ''overflow'' = Some ''hidden''"
      by (simp add: applySquircle_style [OF nosup] initialClosure_fields)
    from updateStyles_fallback(3) [OF fb]
    show "style (snd (applySquircle env ns el opts d)) el ''clipPath'' = style d el ''clipPath''"
      by (simp add: applySquircle_style [OF nosup] initialClosure_fields)
    from updateStyles_fallback(4) [OF fb]
    show "style (snd (applySquircle env ns el opts d)) el ''WebkitClipPath'' =
              style d el ''WebkitClipPath''"
      by (simp add: applySquircle_style [OF nosup] initialClosure_fields)
  }
qed

text \<open>
  An element of \<open>100 \<times> 100\<close> with radius 20: the clip path on the browser host, and
  \<^verbatim>\<open>20px\<close> with no clip path on the host without support.
\<close>

theorem clip_or_fallback_witness:
  "0 < (100::real)
   \<and> offsetWidth (pageOf 100 100) 0 = 100 \<and> offsetHeight (pageOf 100 100) 0 = 100
   \<and> 0 < nextNode (pageOf 100 100)
   \<and> supportsClipPath browserEnv = Returns True
   \<and> createSquircleStyles browserEnv decimalString 100 100 borderedOptions =
       Returns \<lparr>position = ''relative'',
                clipPath = Some (''path('' @ [CHR 0x27] @ getSquirclePath decimalString (Positional 100 100 20) @ [CHR 0x27] @ '')''),
                WebkitClipPath =
                  Some (''path('' @ [CHR 0x27] @ getSquirclePath decimalString (Positional 100 100 20) @ [CHR 0x27] @ '')''),
                borderRadius = None,
                overflow = None\<rparr>
   \<and> style (snd (applySquircle browserEnv decimalString 0 borderedOptions (pageOf 100 100))) 0
         ''clipPath'' =
       Some (''path('' @ [CHR 0x27] @ getSquirclePath decimalString (Positional 100 100 20) @ [CHR 0x27] @ '')'')
   \<and> supportsClipPath legacyEnv = Returns False
   \<and> createSquircleStyles legacyEnv decimalString 100 100 borderedOptions =
       Returns \<lparr>position = ''relative'', clipPath = None, WebkitClipPath = None,
                borderRadius = Some ''20px'', overflow = Some ''hidden''\<rparr>
   \<and> style (snd (applySquircle legacyEnv decimalString 0 borderedOptions (pageOf 100 100))) 0
         ''borderRadius'' = Some ''20px''
   \<and> style (snd (applySquircle legacyEnv decimalString 0 borderedOptions (pageOf 100 100))) 0
         ''clipPath'' = None"
proof -
  have pos: "0 < (100::real)"
    by simp
  have ow: "offsetWidth (pageOf 100 100) 0 = 100" and oh: "offsetHeight (pageOf 100 100) 0 = 100"
    and node: "0 < nextNode (pageOf 100 100)"
    and unstyled: "style (pageOf 100 100) 0 ''clipPath'' = None"
    by (simp_all add: pageOf_def)
  have browser: "supportsClipPath browserEnv = Returns True"
    by (simp add: supportsClipPath_def browserEnv_def tryCatch_def)
  have legacy: "supportsClipPath legacyEnv = Returns False"
    by (simp add: supportsClipPath_def legacyEnv_def tryCatch_def)
  have radius20: "optRadius borderedOptions = 20"
    by (simp add: borderedOptions_def)
  have twenty: "decimalString 20 = ''20''"
    by (simp add: decimalString_def)
  note precise = clip_or_fallback [OF pos pos ow oh node, of browserEnv decimalString borderedOptions]
  note fallback = clip_or_fallback [OF pos pos ow oh node, of legacyEnv decimalString borderedOptions]
  from precise browser
  have clip: "style (snd (applySquircle browserEnv decimalString 0 borderedOptions (pageOf 100 100))) 0
         ''clipPath'' =
       Some (''path('' @ [CHR 0x27] @ getSquirclePath decimalString (Positional 100 100 20) @ [CHR 0x27] @ '')'')"
    by (simp only: radius20)
  from precise browser
  have styles: "createSquircleStyles browserEnv decimalString 100 100 borderedOptions =
       Returns \<lparr>position = ''relative'',
                clipPath = Some (''path('' @ [CHR 0x27] @ getSquirclePath decimalString (Positional 100 100 20) @ [CHR 0x27] @ '')''),
                WebkitClipPath =
                  Some (''path('' @ [CHR 0x27] @ getSquirclePath decimalString (Positional 100 100 20) @ [CHR 0x27] @ '')''),
                borderRadius = None,
                overflow = None\<rparr>"
    by (simp only: radius20)
  from fallback legacy
  have fbstyles: "createSquircleStyles legacyEnv decimalString 100 100 borderedOptions =
       Returns \<lparr>position = ''relative'', clipPath = None, WebkitClipPath = None,
                borderRadius = Some ''20px'', overflow = Some ''hidden''\<rparr>"
    by (simp add: radius20 twenty)
  from fallback legacy
  have rad: "style (snd (applySquircle legacyEnv decimalString 0 borderedOptions (pageOf 100 100))) 0
         ''borderRadius'' = Some ''20px''"
    by (simp add: radius20 twenty)
  from fallback legacy
  have noclip: "style (snd (applySquircle legacyEnv decimalString 0 borderedOptions (pageOf 100 100))) 0
         ''clipPath'' = None"
    by (simp only: unstyled)
  show ?thesis
    by (intro conjI pos ow oh node browser styles clip legacy fbstyles rad noclip)
qed

lemma cleanup_result:
  assumes "hasWindow env"
  shows "fst (cleanup env c d) = Inr ()"
  using assms by (simp add: cleanup_def Let_def removeChild_def split: option.splits)

lemma cleanup_state:
  assumes "hasWindow env"
  shows "snd (cleanup env c d) =
     d\<lparr>observing := (case observer c of None \<Rightarrow> observing d
                       | Some ob \<Rightarrow> (observing d)(ob := [])),
       windowListeners := removeAll (''resize'', updateStylesFn c) (windowListeners d),
       parentNode := (case svgOverlay c of None \<Rightarrow> parentNode d
                       | Some ov \<Rightarrow> (parentNode d)(ov := None))\<rparr>"
  using assms
  by (auto simp: cleanup_def Let_def removeChild_def disconnect_def removeEventListener_def
      fun_upd_idem split: option.splits)

lemma cleanup_twice:
  assumes "hasWindow env"
  shows "cleanup env c (snd (cleanup env c d)) = (Inr (), snd (cleanup env c d))"
proof -
  have "fst (cleanup env c (snd (cleanup env c d))) = Inr ()"
    using assms by (rule cleanup_result)
  moreover have "snd (cleanup env c (snd (cleanup env c d))) = snd (cleanup env c d)"
    using assms by (simp add: cleanup_state split: option.splits)
  ultimately show ?thesis
    by (simp add: prod_eq_iff)
qed

lemma applySquircle_window:
  assumes "applySquircle env ns el opts d = (Inr c, d')"
  shows "hasWindow env"
  using assms
  by (cases "supportsClipPath env")
    (auto simp: applySquircle_def Let_def split_def split: if_splits)

lemma applySquircle_zero:
  assumes "offsetWidth d el = 0 \<or> offsetHeight d el = 0"
    and "applySquircle env ns el opts d = (Inr c, d')"
  shows "style d' = style d" and "parentNode d' = parentNode d" and "svgOverlay c = None"
proof -
  obtain b where b: "supportsClipPath env = Returns b"
    using assms(2) by (cases "supportsClipPath env") (simp_all add: applySquircle_def)
  let ?c = "initialClosure b el opts d" and ?d = "d\<lparr>nextFunction := Suc (nextFunction d)\<rparr>"
  have "offsetWidth ?d (element ?c) = 0 \<or> offsetHeight ?d (element ?c) = 0"
    using assms(1) by (simp add: initialClosure_def)
  then have upd: "updateStyles ns ?c ?d = (?c, ?d)"
    by (rule updateStyles_zero)
  from assms(2) b upd [unfolded initialClosure_def]
  show "style d' = style d" and "parentNode d' = parentNode d" and "svgOverlay c = None"
    by (auto simp: applySquircle_def Let_def newResizeObserver_def observe_def
        addEventListener_def split: if_splits)
qed

text \<open>
  Claim C9. A bind returns its cleanup only on a host with a window. There, for every
  state of the closure variables and of the document, the cleanup that
  \<^verbatim>\<open>applySquircle\<close> returns does not throw; after it the observer observes nothing, the
  resize listener is not registered on the window and the overlay, if there is one, has
  no parent; a second call does not throw and changes nothing. After a bind on an
  element of zero width or height, which has changed no style and created no overlay,
  the same holds and the tree is as it was before the bind.
\<close>

theorem cleanup_idempotent:
  assumes "hasWindow env"
  shows "fst (cleanup env c d) = Inr ()
   \<and> (\<forall>ob. observer c = Some ob \<longrightarrow> observing (snd (cleanup env c d)) ob = [])
   \<and> (''resize'', updateStylesFn c) \<notin> set (windowListeners (snd (cleanup env c d)))
   \<and> (\<forall>ov. svgOverlay c = Some ov \<longrightarrow> parentNode (snd (cleanup env c d)) ov = None)
   \<and> cleanup env c (snd (cleanup env c d)) = (Inr (), snd (cleanup env c d))
   \<and> (\<forall>ns el opts d0.
         (offsetWidth d0 el = 0 \<or> offsetHeight d0 el = 0)
         \<longrightarrow> applySquircle env ns el opts d0 = (Inr c, d)
         \<longrightarrow> style d = style d0 \<and> parentNode d = parentNode d0 \<and> svgOverlay c = None
             \<and> parentNode (snd (cleanup env c d)) = parentNode d0)"
proof (intro conjI allI impI)
  show "fst (cleanup env c d) = Inr ()"
    using assms by (rule cleanup_result)
  show "cleanup env c (snd (cleanup env c d)) = (Inr (), snd (cleanup env c d))"
    using assms by (rule cleanup_twice)
  show "(''resize'', updateStylesFn c) \<notin> set (windowListeners (snd (cleanup env c d)))"
    using assms by (simp add: cleanup_state)
next
  fix ob
  assume "observer c = Some ob"
  with assms show "observing (snd (cleanup env c d)) ob = []"
    by (simp add: cleanup_state)
next
  fix ov
  assume "svgOverlay c = Some ov"
  with assms show "parentNode (snd (cleanup env c d)) ov = None"
    by (simp add: cleanup_state)
next
  fix ns el opts d0
  assume zero: "offsetWidth d0 el = 0 \<or> offsetHeight d0 el = 0"
    and bound: "applySquircle env ns el opts d0 = (Inr c, d)"
  note facts = applySquircle_zero [OF zero bound]
  from facts show "style d = style d0" and "parentNode d = parentNode d0" and "svgOverlay c = None"
    by simp_all
  from facts assms show "parentNode (snd (cleanup env c d)) = parentNode d0"
    by (simp add: cleanup_state)
qed

text \<open>
  On the browser host: after the bind of a bordered element of \<open>100 \<times> 100\<close> the
  listener, the observer and the overlay are there, and after the cleanup they are
  gone; the bind of an element of width zero changes no style and its cleanup runs
  twice as well.
\<close>

lemma browser_supported: "supportsClipPath browserEnv = Returns True"
  by (simp add: supportsClipPath_def browserEnv_def tryCatch_def)

lemma bound_closure:
  "fst (applySquircle browserEnv decimalString 0 borderedOptions (pageOf 100 100)) =
     Inr boundClosure"
  by (simp add: applySquircle_def supportsClipPath_def tryCatch_def hasResizeObserver_def browserEnv_def
      borderedOptions_def pageOf_def updateStyles_def Let_def createElementNS_def
      setStyle_def setAttribute_def appendChild_def newResizeObserver_def observe_def
      addEventListener_def boundClosure_def)

lemma bound_page:
  "(''resize'', 0) \<in> set (windowListeners boundPage)"
  "observing boundPage 0 = [0]"
  "parentNode boundPage 1 = Some 0"
  by (simp_all add: boundPage_def applySquircle_def supportsClipPath_def tryCatch_def hasResizeObserver_def
      browserEnv_def borderedOptions_def pageOf_def updateStyles_def Let_def createElementNS_def
      setStyle_def setAttribute_def appendChild_def newResizeObserver_def observe_def
      addEventListener_def)

lemma zero_bound:
  "applySquircle browserEnv decimalString 0 borderedOptions (pageOf 0 100) =
     (Inr zeroClosure, zeroPage)"
proof -
  have "fst (applySquircle browserEnv decimalString 0 borderedOptions (pageOf 0 100)) =
      Inr zeroClosure"
    by (simp add: applySquircle_def supportsClipPath_def tryCatch_def hasResizeObserver_def
        browserEnv_def borderedOptions_def pageOf_def updateStyles_def Let_def
        newResizeObserver_def observe_def addEventListener_def zeroClosure_def)
  then show ?thesis
    by (simp add: zeroPage_def prod_eq_iff)
qed

theorem cleanup_idempotent_witness:
  "hasWindow browserEnv
   \<and> fst (applySquircle browserEnv decimalString 0 borderedOptions (pageOf 100 100)) =
     Inr boundClosure
   \<and> (''resize'', 0) \<in> set (windowListeners boundPage)
   \<and> observing boundPage 0 = [0]
   \<and> parentNode boundPage 1 = Some 0
   \<and> fst (cleanup browserEnv boundClosure boundPage) = Inr ()
   \<and> (''resize'', 0) \<notin> set (windowListeners (snd (cleanup browserEnv boundClosure boundPage)))
   \<and> observing (snd (cleanup browserEnv boundClosure boundPage)) 0 = []
   \<and> parentNode (snd (cleanup browserEnv boundClosure boundPage)) 1 = None
   \<and> cleanup browserEnv boundClosure (snd (cleanup browserEnv boundClosure boundPage)) =
       (Inr (), snd (cleanup browserEnv boundClosure boundPage))
   \<and> (offsetWidth (pageOf 0 100) 0 = 0 \<or> offsetHeight (pageOf 0 100) 0 = 0)
   \<and> applySquircle browserEnv decimalString 0 borderedOptions (pageOf 0 100) =
       (Inr zeroClosure, zeroPage)
   \<and> style zeroPage = style (pageOf 0 100)
   \<and> fst (cleanup browserEnv zeroClosure zeroPage) = Inr ()
   \<and> parentNode (snd (cleanup browserEnv zeroClosure zeroPage)) = parentNode (pageOf 0 100)
   \<and> cleanup browserEnv zeroClosure (snd (cleanup browserEnv zeroClosure zeroPage)) =
       (Inr (), snd (cleanup browserEnv zeroClosure zeroPage))"
proof -
  have window: "hasWindow browserEnv"
    using zero_bound by (rule applySquircle_window)
  note inst = cleanup_idempotent [OF window, of boundClosure boundPage]
  have fields: "observer boundClosure = Some 0" "svgOverlay boundClosure = Some 1"
    "updateStylesFn boundClosure = 0"
    by (simp_all add: boundClosure_def)
  from inst have ok: "fst (cleanup browserEnv boundClosure boundPage) = Inr ()"
    by blast
  from inst fields have listener:
    "(''resize'', 0) \<notin> set (windowListeners (snd (cleanup browserEnv boundClosure boundPage)))"
    by simp
  from inst fields have obs: "observing (snd (cleanup browserEnv boundClosure boundPage)) 0 = []"
    by blast
  from inst fields have overlay: "parentNode (snd (cleanup browserEnv boundClosure boundPage)) 1 = None"
    by blast
  from inst have again: "cleanup browserEnv boundClosure (snd (cleanup browserEnv boundClosure boundPage)) =
       (Inr (), snd (cleanup browserEnv boundClosure boundPage))"
    by blast
  note zinst = cleanup_idempotent [OF window, of zeroClosure zeroPage]
  have zero: "offsetWidth (pageOf 0 100) 0 = 0 \<or> offsetHeight (pageOf 0 100) 0 = 0"
    by (simp add: pageOf_def)
  from zinst zero zero_bound have zstyle: "style zeroPage = style (pageOf 0 100)"
    by blast
  from zinst have zok: "fst (cleanup browserEnv zeroClosure zeroPage) = Inr ()"
    by blast
  from zinst zero zero_bound
  have zparent: "parentNode (snd (cleanup browserEnv zeroClosure zeroPage)) = parentNode (pageOf 0 100)"
    by blast
  from zinst have zagain: "cleanup browserEnv zeroClosure (snd (cleanup browserEnv zeroClosure zeroPage)) =
       (Inr (), snd (cleanup browserEnv zeroClosure zeroPage))"
    by blast
  show ?thesis
    by (intro conjI window bound_closure bound_page ok listener obs overlay again zero zero_bound
        zstyle zok zparent zagain)
qed

text \<open>
  The custom element's \<^verbatim>\<open>disconnectedCallback\<close> is not a function returned by a bind;
  it deregisters the same two channels and is idempotent, and it leaves the tree as it
  is.
\<close>

lemma disconnectedCallback_idempotent:
  "disconnectedCallback e (disconnectedCallback e d) = disconnectedCallback e d"
  "(''resize'', handleResize e) \<notin> set (windowListeners (disconnectedCallback e d))"
  "wcObserver e = Some ob \<Longrightarrow> observing (disconnectedCallback e d) ob = []"
  "parentNode (disconnectedCallback e d) = parentNode d"
  by (simp_all add: disconnectedCallback_def Let_def disconnect_def removeEventListener_def
      split: option.splits)

end
